theory Spec2Isabelle
  imports Main "HOL-Library.AList"
begin

chapter \<open>Embedding of the SDK\<close>

text \<open>
  A shallow embedding of the TypeScript SDK of the Sonoma Labs toolkit: the Agent handle
  of \<^verbatim>\<open>core/Agent.ts\<close> with its lifecycle operations, the type guards of
  \<^verbatim>\<open>types/index.ts\<close> and the configuration defaults of \<^verbatim>\<open>types/config.ts\<close>.
  An \<^verbatim>\<open>async\<close> method is a function of the handle and of the network state that
  returns its result, \<open>Inl\<close> for a thrown error, with both states afterwards; a
  \<^verbatim>\<open>try\<close>/\<^verbatim>\<open>catch\<close> is a case distinction on that result.
\<close>

section \<open>Data model (src/js/src/types/index.ts)\<close>

text \<open>
  The lifecycle enum, the configuration and the account snapshot are the interfaces of
  \<^verbatim>\<open>types/index.ts\<close>. A JavaScript \<^verbatim>\<open>number\<close> is modelled as an
  \<^typ>\<open>int\<close>: the operations below only store, copy and compare these values.
  A \<^verbatim>\<open>Buffer\<close> is a list of bytes, an opaque metadata mapping a list of
  key/value pairs. The optional \<^verbatim>\<open>metadata\<close> field of the configuration is
  called \<open>configMetadata\<close> here, because the account has a field \<^verbatim>\<open>metadata\<close>
  of another type.
\<close>

datatype AgentState = Uninitialized | Initialized | Running | Paused | Error | Terminated

datatype PublicKey = PublicKey string

type_synonym Buffer = "char list"

record AgentConfig =
  autonomousMode :: bool
  executionLimit :: int
  memoryLimit :: int
  capabilities :: "string list"
  configMetadata :: "(string \<times> string) list option"

record PerformanceMetrics =
  totalExecutions :: int
  successfulExecutions :: int
  failedExecutions :: int
  averageExecutionTime :: int
  totalComputeUnits :: int

record AgentMetadata =
  createdAt :: int
  updatedAt :: int
  version :: string
  performanceMetrics :: PerformanceMetrics

record AgentAccount =
  publicKey :: PublicKey
  authority :: PublicKey
  name :: string
  config :: AgentConfig
  state :: AgentState
  lastExecution :: int
  executionCount :: int
  metadata :: AgentMetadata

text \<open>
  \<^verbatim>\<open>Partial<AgentConfig>\<close>: every field may be absent (\<open>None\<close>). A field that is
  present with the value \<^verbatim>\<open>undefined\<close> is outside this model.
\<close>

record PartialAgentConfig =
  autonomousMode_opt :: "bool option"
  executionLimit_opt :: "int option"
  memoryLimit_opt :: "int option"
  capabilities_opt :: "string list option"
  configMetadata_opt :: "(string \<times> string) list option"

text \<open>
  Errors. Every error the SDK raises itself is \<^verbatim>\<open>new SonomaError(message, { cause })\<close>;
  \<open>Foreign\<close> stands for any error value thrown by a collaborator outside the SDK
  (the ledger client, the key parser).
\<close>

datatype error = Foreign string | SonomaError string "error option"

text \<open>
  The three notification channels of \<^verbatim>\<open>AgentEvents\<close>. The second argument of
  \<^verbatim>\<open>execution\<close> is the payload on success and the causing error on failure.
\<close>

datatype execData = Payload Buffer | Cause error

datatype event =
    StateChange AgentState AgentState
  | Execution bool execData
  | ErrorEvent error

section \<open>The program collaborator and its call log\<close>

text \<open>
  \<^verbatim>\<open>core/Program.ts\<close> is not part of the sources at hand; the Agent only calls its
  methods. The program is therefore a parameter: a record of its methods, each a function
  of the remote world \<open>'w\<close> that returns either the thrown error or the value, together
  with the world afterwards. \<open>'i\<close> is the type of transaction instructions. A
  \<^verbatim>\<open>new Transaction().add(instruction)\<close> is the one-element list of instructions.
\<close>

record ('w, 'i) Program =
  createAgentAccount :: "'w \<Rightarrow> (error + PublicKey) \<times> 'w"
  createInitializeInstruction :: "PublicKey \<Rightarrow> string \<Rightarrow> AgentConfig \<Rightarrow> 'w \<Rightarrow> (error + 'i) \<times> 'w"
  createUpdateInstruction :: "PublicKey \<Rightarrow> AgentConfig \<Rightarrow> 'w \<Rightarrow> (error + 'i) \<times> 'w"
  createExecuteInstruction :: "PublicKey \<Rightarrow> Buffer \<Rightarrow> 'w \<Rightarrow> (error + 'i) \<times> 'w"
  createPauseInstruction :: "PublicKey \<Rightarrow> 'w \<Rightarrow> (error + 'i) \<times> 'w"
  createResumeInstruction :: "PublicKey \<Rightarrow> 'w \<Rightarrow> (error + 'i) \<times> 'w"
  sendTransaction :: "'i list \<Rightarrow> 'w \<Rightarrow> (error + unit) \<times> 'w"
  getAgentAccount :: "PublicKey \<Rightarrow> 'w \<Rightarrow> (error + AgentAccount) \<times> 'w"

text \<open>
  A call through the program is recorded, with its arguments, in a log kept beside the
  remote world, the way a test double counts calls.
\<close>

datatype 'i call =
    CreateAgentAccount
  | CreateInitializeInstruction PublicKey string AgentConfig
  | CreateUpdateInstruction PublicKey AgentConfig
  | CreateExecuteInstruction PublicKey Buffer
  | CreatePauseInstruction PublicKey
  | CreateResumeInstruction PublicKey
  | SendTransaction "'i list"
  | GetAgentAccount PublicKey

record ('w, 'i) net =
  remote :: 'w
  calls :: "'i call list"

definition invoke :: "'i call \<Rightarrow> ('w \<Rightarrow> 'r \<times> 'w) \<Rightarrow> ('w, 'i) net \<Rightarrow> 'r \<times> ('w, 'i) net" where
  "invoke c f n =
     (case f (remote n) of (r, w') \<Rightarrow> (r, \<lparr>remote = w', calls = calls n @ [c]\<rparr>))"

section \<open>The Agent handle (core/Agent.ts)\<close>

text \<open>
  The handle owns \<^verbatim>\<open>this.account\<close>, the current snapshot, and the subscribers
  registered with \<^verbatim>\<open>on\<close>. A subscriber is called with the notification while the
  handle shows its current snapshot, and either returns (\<open>None\<close>) or throws; it does not
  call back into the handle. The \<^verbatim>\<open>emit\<close> of the event-emitter library calls the
  subscribers in the order of their registration and does not catch: the first exception
  leaves \<^verbatim>\<open>emit\<close> and the later subscribers are not called. The model records every
  \<^verbatim>\<open>emit\<close> call in order, together with the snapshot that is current at that moment,
  which is what a subscriber reading \<^verbatim>\<open>getState()\<close> during the delivery sees.
\<close>

type_synonym subscriber = "event \<Rightarrow> AgentAccount \<Rightarrow> error option"

record emission =
  event :: event
  visible :: AgentAccount

record Agent =
  account :: AgentAccount
  subscribers :: "subscriber list"
  emitted :: "emission list"

fun deliver :: "subscriber list \<Rightarrow> event \<Rightarrow> AgentAccount \<Rightarrow> error option" where
  "deliver [] ev acc = None"
| "deliver (s # ss) ev acc =
     (case s ev acc of Some thrown \<Rightarrow> Some thrown | None \<Rightarrow> deliver ss ev acc)"

definition emit :: "event \<Rightarrow> Agent \<Rightarrow> error option \<times> Agent" where
  "emit ev a =
     (deliver (subscribers a) ev (account a),
      a\<lparr>emitted := emitted a @ [\<lparr>event = ev, visible = account a\<rparr>]\<rparr>)"

definition on :: "subscriber \<Rightarrow> Agent \<Rightarrow> Agent" where
  "on s a = a\<lparr>subscribers := subscribers a @ [s]\<rparr>"

definition newAgent :: "AgentAccount \<Rightarrow> Agent" where
  "newAgent acc = \<lparr>account = acc, subscribers = [], emitted = []\<rparr>"

definition getState :: "Agent \<Rightarrow> AgentState" where
  "getState a = state (account a)"

definition getConfig :: "Agent \<Rightarrow> AgentConfig" where
  "getConfig a = config (account a)"

definition getMetrics :: "Agent \<Rightarrow> PerformanceMetrics" where
  "getMetrics a = performanceMetrics (metadata (account a))"

text \<open>
  \<^verbatim>\<open>private async sendTransaction(instruction)\<close>. The \<^verbatim>\<open>catch\<close> emits
  \<open>error\<close> and rethrows; when a subscriber throws during that emission, its exception
  leaves the method instead.
\<close>

definition agentSendTransaction ::
  "('w, 'i) Program \<Rightarrow> 'i \<Rightarrow> Agent \<Rightarrow> ('w, 'i) net \<Rightarrow> (error + unit) \<times> Agent \<times> ('w, 'i) net" where
  "agentSendTransaction P instruction a n =
     (case invoke (SendTransaction [instruction]) (sendTransaction P [instruction]) n of
        (Inr u, n') \<Rightarrow> (Inr (), a, n')
      | (Inl e, n') \<Rightarrow>
          (case emit (ErrorEvent e) a of
             (None, a') \<Rightarrow> (Inl e, a', n')
           | (Some thrown, a') \<Rightarrow> (Inl thrown, a', n')))"

text \<open>
  \<^verbatim>\<open>public async refresh()\<close>. The assignment to \<^verbatim>\<open>this.account\<close> and the
  emission both stand inside the \<^verbatim>\<open>try\<close>: an exception of a subscriber is wrapped
  like a failed fetch, with the fetched snapshot already in place.
\<close>

definition refresh ::
  "('w, 'i) Program \<Rightarrow> Agent \<Rightarrow> ('w, 'i) net \<Rightarrow> (error + unit) \<times> Agent \<times> ('w, 'i) net" where
  "refresh P a n =
     (let oldState = state (account a) in
      case invoke (GetAgentAccount (publicKey (account a)))
                  (getAgentAccount P (publicKey (account a))) n of
        (Inl e, n') \<Rightarrow> (Inl (SonomaError ''Failed to refresh agent data'' (Some e)), a, n')
      | (Inr fetched, n') \<Rightarrow>
          (let a' = a\<lparr>account := fetched\<rparr> in
           if oldState \<noteq> state (account a')
           then (case emit (StateChange oldState (state (account a'))) a' of
                   (None, a'') \<Rightarrow> (Inr (), a'', n')
                 | (Some thrown, a'') \<Rightarrow>
                     (Inl (SonomaError ''Failed to refresh agent data'' (Some thrown)), a'', n'))
           else (Inr (), a', n')))"

text \<open>
  The tail shared by \<^verbatim>\<open>updateConfig\<close>, \<^verbatim>\<open>pause\<close> and \<^verbatim>\<open>resume\<close>:
  \<^verbatim>\<open>await this.sendTransaction(instruction); await this.refresh();\<close> inside the
  \<^verbatim>\<open>try\<close> block whose \<^verbatim>\<open>catch\<close> wraps the error under the given message.
\<close>

definition sendThenRefresh ::
  "string \<Rightarrow> ('w, 'i) Program \<Rightarrow> (error + 'i) \<times> ('w, 'i) net \<Rightarrow> Agent
     \<Rightarrow> (error + unit) \<times> Agent \<times> ('w, 'i) net" where
  "sendThenRefresh msg P built a =
     (case built of
        (Inl e, n1) \<Rightarrow> (Inl (SonomaError msg (Some e)), a, n1)
      | (Inr instruction, n1) \<Rightarrow>
          (case agentSendTransaction P instruction a n1 of
             (Inl e, a2, n2) \<Rightarrow> (Inl (SonomaError msg (Some e)), a2, n2)
           | (Inr u, a2, n2) \<Rightarrow>
               (case refresh P a2 n2 of
                  (Inl e, a3, n3) \<Rightarrow> (Inl (SonomaError msg (Some e)), a3, n3)
                | (Inr u', a3, n3) \<Rightarrow> (Inr (), a3, n3))))"

text \<open>\<^verbatim>\<open>{ ...this.account.config, ...config }\<close>\<close>

definition mergeConfig :: "AgentConfig \<Rightarrow> PartialAgentConfig \<Rightarrow> AgentConfig" where
  "mergeConfig c p =
     \<lparr>autonomousMode = (case autonomousMode_opt p of Some v \<Rightarrow> v | None \<Rightarrow> autonomousMode c),
      executionLimit = (case executionLimit_opt p of Some v \<Rightarrow> v | None \<Rightarrow> executionLimit c),
      memoryLimit = (case memoryLimit_opt p of Some v \<Rightarrow> v | None \<Rightarrow> memoryLimit c),
      capabilities = (case capabilities_opt p of Some v \<Rightarrow> v | None \<Rightarrow> capabilities c),
      configMetadata = (case configMetadata_opt p of Some v \<Rightarrow> Some v | None \<Rightarrow> configMetadata c)\<rparr>"

text \<open>\<^verbatim>\<open>public async updateConfig(config: Partial<AgentConfig>)\<close>\<close>

definition updateConfig ::
  "('w, 'i) Program \<Rightarrow> PartialAgentConfig \<Rightarrow> Agent \<Rightarrow> ('w, 'i) net
     \<Rightarrow> (error + unit) \<times> Agent \<times> ('w, 'i) net" where
  "updateConfig P partial a n =
     (let pk = publicKey (account a); merged = mergeConfig (config (account a)) partial in
      sendThenRefresh ''Failed to update agent configuration'' P
        (invoke (CreateUpdateInstruction pk merged) (createUpdateInstruction P pk merged) n) a)"

text \<open>
  \<^verbatim>\<open>public async execute(data: Buffer)\<close>. \<open>executeCatch\<close> is its
  \<^verbatim>\<open>catch\<close> block: it emits \<open>execution(false, error)\<close> and throws the wrapper,
  unless a subscriber throws during that emission. The emission of
  \<open>execution(true, data)\<close> stands inside the \<^verbatim>\<open>try\<close>.
\<close>

definition executeCatch ::
  "error \<Rightarrow> Agent \<Rightarrow> ('w, 'i) net \<Rightarrow> (error + unit) \<times> Agent \<times> ('w, 'i) net" where
  "executeCatch e a n =
     (case emit (Execution False (Cause e)) a of
        (None, a') \<Rightarrow> (Inl (SonomaError ''Failed to execute agent action'' (Some e)), a', n)
      | (Some thrown, a') \<Rightarrow> (Inl thrown, a', n))"

definition execute ::
  "('w, 'i) Program \<Rightarrow> Buffer \<Rightarrow> Agent \<Rightarrow> ('w, 'i) net
     \<Rightarrow> (error + unit) \<times> Agent \<times> ('w, 'i) net" where
  "execute P data a n =
     (let pk = publicKey (account a) in
      case invoke (CreateExecuteInstruction pk data) (createExecuteInstruction P pk data) n of
        (Inl e, n1) \<Rightarrow> executeCatch e a n1
      | (Inr instruction, n1) \<Rightarrow>
          (case agentSendTransaction P instruction a n1 of
             (Inl e, a2, n2) \<Rightarrow> executeCatch e a2 n2
           | (Inr u, a2, n2) \<Rightarrow>
               (case emit (Execution True (Payload data)) a2 of
                  (None, a3) \<Rightarrow> (Inr (), a3, n2)
                | (Some thrown, a3) \<Rightarrow> executeCatch thrown a3 n2)))"

text \<open>\<^verbatim>\<open>public async pause()\<close>: the state guard stands before the \<^verbatim>\<open>try\<close> block.\<close>

definition pause ::
  "('w, 'i) Program \<Rightarrow> Agent \<Rightarrow> ('w, 'i) net \<Rightarrow> (error + unit) \<times> Agent \<times> ('w, 'i) net" where
  "pause P a n =
     (if state (account a) \<noteq> Running
      then (Inl (SonomaError ''Agent must be running to pause'' None), a, n)
      else (let pk = publicKey (account a) in
            sendThenRefresh ''Failed to pause agent'' P
              (invoke (CreatePauseInstruction pk) (createPauseInstruction P pk) n) a))"

text \<open>\<^verbatim>\<open>public async resume()\<close>\<close>

definition resume ::
  "('w, 'i) Program \<Rightarrow> Agent \<Rightarrow> ('w, 'i) net \<Rightarrow> (error + unit) \<times> Agent \<times> ('w, 'i) net" where
  "resume P a n =
     (if state (account a) \<noteq> Paused
      then (Inl (SonomaError ''Agent must be paused to resume'' None), a, n)
      else (let pk = publicKey (account a) in
            sendThenRefresh ''Failed to resume agent'' P
              (invoke (CreateResumeInstruction pk) (createResumeInstruction P pk) n) a))"

text \<open>\<^verbatim>\<open>public static async create(program, name, config)\<close>\<close>

definition create ::
  "('w, 'i) Program \<Rightarrow> string \<Rightarrow> AgentConfig \<Rightarrow> ('w, 'i) net \<Rightarrow> (error + Agent) \<times> ('w, 'i) net" where
  "create P nm cfg n =
     (case invoke CreateAgentAccount (createAgentAccount P) n of
        (Inl e, n1) \<Rightarrow> (Inl (SonomaError ''Failed to create agent'' (Some e)), n1)
      | (Inr pk, n1) \<Rightarrow>
          (case invoke (CreateInitializeInstruction pk nm cfg)
                       (createInitializeInstruction P pk nm cfg) n1 of
             (Inl e, n2) \<Rightarrow> (Inl (SonomaError ''Failed to create agent'' (Some e)), n2)
           | (Inr instruction, n2) \<Rightarrow>
               (case invoke (SendTransaction [instruction]) (sendTransaction P [instruction]) n2 of
                  (Inl e, n3) \<Rightarrow> (Inl (SonomaError ''Failed to create agent'' (Some e)), n3)
                | (Inr u, n3) \<Rightarrow>
                    (case invoke (GetAgentAccount pk) (getAgentAccount P pk) n3 of
                       (Inl e, n4) \<Rightarrow> (Inl (SonomaError ''Failed to create agent'' (Some e)), n4)
                     | (Inr agentAccount, n4) \<Rightarrow> (Inr (newAgent agentAccount), n4)))))"

text \<open>
  \<^verbatim>\<open>public static async load(program, address: string | PublicKey)\<close>. The
  \<^verbatim>\<open>PublicKey\<close> constructor belongs to the ledger library and may throw on a
  malformed string; it is the parameter \<open>newPublicKey\<close>.
\<close>

datatype address = AddressString string | AddressKey PublicKey

definition load ::
  "(string \<Rightarrow> error + PublicKey) \<Rightarrow> ('w, 'i) Program \<Rightarrow> address \<Rightarrow> ('w, 'i) net
     \<Rightarrow> (error + Agent) \<times> ('w, 'i) net" where
  "load newPublicKey P addr n =
     (case (case addr of AddressString s \<Rightarrow> newPublicKey s | AddressKey k \<Rightarrow> Inr k) of
        Inl e \<Rightarrow> (Inl (SonomaError ''Failed to load agent'' (Some e)), n)
      | Inr pk \<Rightarrow>
          (case invoke (GetAgentAccount pk) (getAgentAccount P pk) n of
             (Inl e, n1) \<Rightarrow> (Inl (SonomaError ''Failed to load agent'' (Some e)), n1)
           | (Inr acc, n1) \<Rightarrow> (Inr (newAgent acc), n1)))"

section \<open>A reference ledger\<close>

text \<open>
  Modelled from the spec: the remote program behind \<^verbatim>\<open>core/Program.ts\<close>, which is
  missing from the sources. It follows the transition table and the command shapes of the
  specification: a command carries one of the discriminators initialize, update, execute,
  pause, resume with its payload; initialize creates the account in state
  \<open>Initialized\<close>, update replaces the configuration by the submitted one, execute moves
  an initialized or running account to \<open>Running\<close> and counts the execution, pause takes
  \<open>Running\<close> to \<open>Paused\<close>, resume takes \<open>Paused\<close> or \<open>Initialized\<close> to
  \<open>Running\<close>. The command builders reject an empty name and a ceiling that is zero or
  negative with \<open>InvalidParameters\<close> and collapse duplicate capability tags, as the
  specification asks of the command builder. Two switches inject a transport failure into
  submission and into fetching. The general theorems below hold for every program; the
  ledger supplies the concrete runs.
\<close>

datatype Instruction =
    Initialize PublicKey string AgentConfig
  | Update PublicKey AgentConfig
  | Execute PublicKey Buffer
  | Pause PublicKey
  | Resume PublicKey

record Ledger =
  accounts :: "(PublicKey \<times> AgentAccount) list"
  freshKeys :: "PublicKey list"
  signer :: PublicKey
  sendFault :: "error option"
  fetchFault :: "error option"

definition initialAccount :: "PublicKey \<Rightarrow> PublicKey \<Rightarrow> string \<Rightarrow> AgentConfig \<Rightarrow> AgentAccount" where
  "initialAccount pk auth nm cfg =
     \<lparr>publicKey = pk, authority = auth, name = nm, config = cfg, state = Initialized,
      lastExecution = 0, executionCount = 0,
      metadata = \<lparr>createdAt = 0, updatedAt = 0, version = ''0.1.0'',
                  performanceMetrics = \<lparr>totalExecutions = 0, successfulExecutions = 0,
                    failedExecutions = 0, averageExecutionTime = 0, totalComputeUnits = 0\<rparr>\<rparr>\<rparr>"

definition countExecution :: "AgentAccount \<Rightarrow> AgentAccount" where
  "countExecution acc =
     (let md = metadata acc; pm = performanceMetrics md in
      acc\<lparr>state := Running, executionCount := executionCount acc + 1,
          metadata := md\<lparr>performanceMetrics :=
            pm\<lparr>totalExecutions := totalExecutions pm + 1,
               successfulExecutions := successfulExecutions pm + 1\<rparr>\<rparr>\<rparr>)"

definition withAccount ::
  "PublicKey \<Rightarrow> (AgentAccount \<Rightarrow> error + AgentAccount) \<Rightarrow> Ledger \<Rightarrow> error + Ledger" where
  "withAccount pk f w =
     (case map_of (accounts w) pk of
        None \<Rightarrow> Inl (Foreign ''account not found'')
      | Some acc \<Rightarrow>
          (case f acc of
             Inl e \<Rightarrow> Inl e
           | Inr acc' \<Rightarrow> Inr (w\<lparr>accounts := AList.update pk acc' (accounts w)\<rparr>)))"

fun applyInstruction :: "Instruction \<Rightarrow> Ledger \<Rightarrow> error + Ledger" where
  "applyInstruction (Initialize pk nm cfg) w =
     Inr (w\<lparr>accounts := AList.update pk (initialAccount pk (signer w) nm cfg) (accounts w)\<rparr>)"
| "applyInstruction (Update pk cfg) w = withAccount pk (\<lambda>acc. Inr (acc\<lparr>config := cfg\<rparr>)) w"
| "applyInstruction (Execute pk data) w =
     withAccount pk (\<lambda>acc. if state acc = Initialized \<or> state acc = Running
                           then Inr (countExecution acc)
                           else Inl (Foreign ''agent cannot execute'')) w"
| "applyInstruction (Pause pk) w =
     withAccount pk (\<lambda>acc. if state acc = Running then Inr (acc\<lparr>state := Paused\<rparr>)
                           else Inl (Foreign ''agent is not running'')) w"
| "applyInstruction (Resume pk) w =
     withAccount pk (\<lambda>acc. if state acc = Paused \<or> state acc = Initialized
                           then Inr (acc\<lparr>state := Running\<rparr>)
                           else Inl (Foreign ''agent is not paused'')) w"

fun applyAll :: "Instruction list \<Rightarrow> Ledger \<Rightarrow> error + Ledger" where
  "applyAll [] w = Inr w"
| "applyAll (i # is) w =
     (case applyInstruction i w of Inl e \<Rightarrow> Inl e | Inr w' \<Rightarrow> applyAll is w')"

definition malformed :: "AgentConfig \<Rightarrow> bool" where
  "malformed cfg = (executionLimit cfg \<le> 0 \<or> memoryLimit cfg \<le> 0)"

definition collapse :: "AgentConfig \<Rightarrow> AgentConfig" where
  "collapse cfg = cfg\<lparr>capabilities := remdups (capabilities cfg)\<rparr>"

definition ledgerProgram :: "(Ledger, Instruction) Program" where
  "ledgerProgram =
     \<lparr>createAgentAccount =
        (\<lambda>w. case freshKeys w of
                [] \<Rightarrow> (Inl (Foreign ''account allocation failed''), w)
              | k # ks \<Rightarrow> (Inr k, w\<lparr>freshKeys := ks\<rparr>)),
      createInitializeInstruction =
        (\<lambda>pk nm cfg w. if nm = [] \<or> malformed cfg
                        then (Inl (Foreign ''InvalidParameters''), w)
                        else (Inr (Initialize pk nm (collapse cfg)), w)),
      createUpdateInstruction =
        (\<lambda>pk cfg w. if malformed cfg
                     then (Inl (Foreign ''InvalidParameters''), w)
                     else (Inr (Update pk (collapse cfg)), w)),
      createExecuteInstruction = (\<lambda>pk data w. (Inr (Execute pk data), w)),
      createPauseInstruction = (\<lambda>pk w. (Inr (Pause pk), w)),
      createResumeInstruction = (\<lambda>pk w. (Inr (Resume pk), w)),
      sendTransaction =
        (\<lambda>tx w. case sendFault w of
                   Some e \<Rightarrow> (Inl e, w)
                 | None \<Rightarrow> (case applyAll tx w of Inl e \<Rightarrow> (Inl e, w) | Inr w' \<Rightarrow> (Inr (), w'))),
      getAgentAccount =
        (\<lambda>pk w. case fetchFault w of
                   Some e \<Rightarrow> (Inl e, w)
                 | None \<Rightarrow> (case map_of (accounts w) pk of
                              None \<Rightarrow> (Inl (Foreign ''account not found''), w)
                            | Some acc \<Rightarrow> (Inr acc, w)))\<rparr>"

text \<open>
  The configuration of the example program, a configuration with a zero and a negative
  ceiling, and a ledger holding the given agents.
\<close>

definition exampleConfig :: AgentConfig where
  "exampleConfig =
     \<lparr>autonomousMode = True, executionLimit = 1000, memoryLimit = 10485760,
      capabilities = [''compute'', ''storage''], configMetadata = None\<rparr>"


definition agentKey :: PublicKey where
  "agentKey = PublicKey ''agent1''"

definition walletKey :: PublicKey where
  "walletKey = PublicKey ''wallet''"

definition accountIn :: "AgentState \<Rightarrow> AgentAccount" where
  "accountIn st = (initialAccount agentKey walletKey ''example-agent'' exampleConfig)\<lparr>state := st\<rparr>"

definition ledgerWith :: "AgentAccount list \<Rightarrow> (Ledger, Instruction) net" where
  "ledgerWith accs =
     \<lparr>remote = \<lparr>accounts = map (\<lambda>acc. (publicKey acc, acc)) accs, freshKeys = [agentKey],
                signer = walletKey, sendFault = None, fetchFault = None\<rparr>,
      calls = []\<rparr>"

definition withSendFault :: "error \<Rightarrow> (Ledger, 'i) net \<Rightarrow> (Ledger, 'i) net" where
  "withSendFault e n = n\<lparr>remote := (remote n)\<lparr>sendFault := Some e\<rparr>\<rparr>"

definition withFetchFault :: "error \<Rightarrow> (Ledger, 'i) net \<Rightarrow> (Ledger, 'i) net" where
  "withFetchFault e n = n\<lparr>remote := (remote n)\<lparr>fetchFault := Some e\<rparr>\<rparr>"

definition partialExecutionLimit :: "int \<Rightarrow> PartialAgentConfig" where
  "partialExecutionLimit v =
     \<lparr>autonomousMode_opt = None, executionLimit_opt = Some v, memoryLimit_opt = None,
      capabilities_opt = None, configMetadata_opt = None\<rparr>"

definition submissionOutage :: "AgentState \<Rightarrow> (Ledger, Instruction) net" where
  "submissionOutage st = withSendFault (Foreign ''blockhash expired'') (ledgerWith [accountIn st])"

text \<open>
  A subscriber that throws on every \<open>stateChange\<close> and returns on the other
  notifications.
\<close>

fun failingStateChangeSubscriber :: subscriber where
  "failingStateChangeSubscriber (StateChange old new) acc = Some (Foreign ''subscriber failed'')"
| "failingStateChangeSubscriber ev acc = None"

text \<open>
  \<open>propagated a e\<close> is the error that leaves the private \<^verbatim>\<open>sendTransaction\<close> of
  handle \<open>a\<close> when the submission failed with \<open>e\<close>: \<open>e\<close> itself, or the exception
  of a subscriber to \<open>error\<close>.
\<close>

definition propagated :: "Agent \<Rightarrow> error \<Rightarrow> error" where
  "propagated a e =
     (case deliver (subscribers a) (ErrorEvent e) (account a) of
        None \<Rightarrow> e
      | Some thrown \<Rightarrow> thrown)"

section \<open>Run-time values and the type guards (types/index.ts)\<close>

text \<open>
  The type guards take a value of type \<^verbatim>\<open>any\<close>. A run-time value is one of the
  JavaScript kinds below; an object is a finite mapping from property names to values.
\<close>

datatype jsval =
    JUndefined
  | JNull
  | JBoolean bool
  | JNumber int
  | JString string
  | JArray "jsval list"
  | JObject "string \<Rightarrow> jsval option"

fun typeof :: "jsval \<Rightarrow> string" where
  "typeof JUndefined = ''undefined''"
| "typeof JNull = ''object''"
| "typeof (JBoolean b) = ''boolean''"
| "typeof (JNumber x) = ''number''"
| "typeof (JString s) = ''string''"
| "typeof (JArray xs) = ''object''"
| "typeof (JObject m) = ''object''"





text \<open>\<^verbatim>\<open>error.message\<close>\<close>

fun message :: "error \<Rightarrow> string" where
  "message (Foreign m) = m"
| "message (SonomaError m c) = m"

text \<open>The message of the error an operation failed with, if it failed.\<close>

fun failureMessage :: "error + 'a \<Rightarrow> string option" where
  "failureMessage (Inl e) = Some (message e)"
| "failureMessage (Inr v) = None"

text \<open>
  A stand-in for the key parser of the ledger library: it rejects the empty string.
\<close>

definition parseKey :: "string \<Rightarrow> error + PublicKey" where
  "parseKey s = (if s = [] then Inl (Foreign ''Invalid public key input'') else Inr (PublicKey s))"

section \<open>SDK configuration (types/config.ts)\<close>

text \<open>
  \<^verbatim>\<open>validateConfig\<close> is built from object spreads only, so configurations are
  handled as run-time objects. \<open>ownProps v\<close> is what a spread \<^verbatim>\<open>...v\<close> copies: the
  properties of an object, the elements of an array and the characters of a string under
  their decimal indices, and nothing for \<^verbatim>\<open>undefined\<close> (an absent section),
  \<^verbatim>\<open>null\<close>, a boolean or a number. \<open>propOf obj k\<close> is \<^verbatim>\<open>obj.k\<close> on an object.
\<close>

type_synonym jsobject = "string \<Rightarrow> jsval option"

function indexKey :: "nat \<Rightarrow> string" where
  "indexKey i =
     (if i < 10 then [''0123456789'' ! i]
      else indexKey (i div 10) @ [''0123456789'' ! (i mod 10)])"
  by pat_completeness auto
termination
  by (relation "measure id") auto

declare indexKey.simps [simp del]

fun ownProps :: "jsval \<Rightarrow> jsobject" where
  "ownProps (JObject m) = m"
| "ownProps (JArray xs) = map_of (zip (map indexKey [0..<length xs]) xs)"
| "ownProps (JString cs) =
     map_of (zip (map indexKey [0..<length cs]) (map (\<lambda>c. JString [c]) cs))"
| "ownProps v = Map.empty"

definition propOf :: "jsobject \<Rightarrow> string \<Rightarrow> jsval" where
  "propOf obj k = (case obj k of Some v \<Rightarrow> v | None \<Rightarrow> JUndefined)"

definition DEFAULT_CONFIG :: jsobject where
  "DEFAULT_CONFIG =
     [''network'' \<mapsto> JObject
        [''endpoint'' \<mapsto> JString ''https://api.mainnet-beta.solana.com'',
         ''commitment'' \<mapsto> JString ''confirmed'',
         ''timeout'' \<mapsto> JNumber 30000,
         ''maxRetries'' \<mapsto> JNumber 3],
      ''agent'' \<mapsto> JObject
        [''executionLimit'' \<mapsto> JNumber 1000,
         ''memoryLimit'' \<mapsto> JNumber (1024 * 1024 * 10),
         ''defaultCapabilities'' \<mapsto> JArray [JString ''compute'', JString ''storage''],
         ''retry'' \<mapsto> JObject
           [''maxAttempts'' \<mapsto> JNumber 3,
            ''baseDelay'' \<mapsto> JNumber 1000,
            ''maxDelay'' \<mapsto> JNumber 10000,
            ''backoffFactor'' \<mapsto> JNumber 2],
         ''performance'' \<mapsto> JObject
           [''maxExecutionTime'' \<mapsto> JNumber 5000,
            ''maxComputeUnits'' \<mapsto> JNumber 200000,
            ''successRateThreshold'' \<mapsto> JNumber 95]],
      ''program'' \<mapsto> JObject
        [''programId'' \<mapsto> JString [],
         ''computeBudget'' \<mapsto> JNumber 200000,
         ''prefetchAccounts'' \<mapsto> JBoolean True,
         ''batchSize'' \<mapsto> JNumber 100],
      ''settings'' \<mapsto> JObject
        [''logLevel'' \<mapsto> JString ''info'',
         ''debug'' \<mapsto> JBoolean False,
         ''telemetry'' \<mapsto> JBoolean True,
         ''cache'' \<mapsto> JObject
           [''enabled'' \<mapsto> JBoolean True,
            ''ttl'' \<mapsto> JNumber 300000,
            ''maxSize'' \<mapsto> JNumber 1000]]]"

text \<open>
  \<^verbatim>\<open>export function validateConfig(config: Partial<SonomaConfig>)\<close>: the object
  literal, read left to right; a later property replaces an earlier one of the same name.
\<close>

definition validateConfig :: "jsobject \<Rightarrow> jsobject" where
  "validateConfig cfg =
     (DEFAULT_CONFIG ++ cfg)
       (''network'' \<mapsto>
          JObject (ownProps (propOf DEFAULT_CONFIG ''network'') ++ ownProps (propOf cfg ''network'')),
        ''agent'' \<mapsto>
          JObject (ownProps (propOf DEFAULT_CONFIG ''agent'') ++ ownProps (propOf cfg ''agent'')),
        ''program'' \<mapsto>
          JObject (ownProps (propOf DEFAULT_CONFIG ''program'') ++ ownProps (propOf cfg ''program'')),
        ''settings'' \<mapsto>
          JObject (ownProps (propOf DEFAULT_CONFIG ''settings'') ++ ownProps (propOf cfg ''settings'')))"

text \<open>\<open>sectionOption cfg s k\<close> is the option \<^verbatim>\<open>cfg.s.k\<close>, if section and option exist.\<close>

definition sectionOption :: "jsobject \<Rightarrow> string \<Rightarrow> string \<Rightarrow> jsval option" where
  "sectionOption cfg s k = ownProps (propOf cfg s) k"

text \<open>\<open>subOption cfg s g k\<close> is \<^verbatim>\<open>cfg.s.g.k\<close>, an option inside a nested group.\<close>

definition subOption :: "jsobject \<Rightarrow> string \<Rightarrow> string \<Rightarrow> string \<Rightarrow> jsval option" where
  "subOption cfg s g k = ownProps (propOf (ownProps (propOf cfg s)) g) k"

text \<open>
  Two inputs: \<^verbatim>\<open>{ network: { timeout: 5000 } }\<close> and
  \<^verbatim>\<open>{ agent: { retry: { maxAttempts: 5 } } }\<close>.
\<close>

definition timeoutOverride :: jsobject where
  "timeoutOverride = [''network'' \<mapsto> JObject [''timeout'' \<mapsto> JNumber 5000]]"

definition retryOverride :: jsobject where
  "retryOverride =
     [''agent'' \<mapsto> JObject [''retry'' \<mapsto> JObject [''maxAttempts'' \<mapsto> JNumber 5]]]"

section \<open>The retry executor\<close>

text \<open>
  Modelled from the spec: the retry executor, \<^verbatim>\<open>retry\<close> of \<^verbatim>\<open>utils/helpers.ts\<close>,
  which is missing from the sources; only its call sites in \<^verbatim>\<open>core/Connection.ts\<close>
  are at hand (each with \<^verbatim>\<open>{ maxAttempts: 3, delay: 1000 }\<close>). The specification gives the policy
  \<open>{maxAttempts, baseDelay, maxDelay, backoffFactor}\<close> and the algorithm: attempt the
  operation; on failure, if attempts remain, sleep for
  \<open>min(maxDelay, baseDelay * backoffFactor^(attemptIndex - 1))\<close> and retry; on exhausting
  the attempts, propagate the last failure wrapped with the attempt count; a failure
  classified as non-transient propagates at once. The classification is a parameter of the
  call site. The wrapped operation is a function of the world it acts on; the run records
  the number of attempts made and the delays slept.
\<close>

record RetryPolicy =
  maxAttempts :: nat
  baseDelay :: nat
  maxDelay :: nat
  backoffFactor :: nat

datatype retryFailure = Exhausted nat error | NonTransient error

record ('a, 's) retryRun =
  outcome :: "retryFailure + 'a"
  attempts :: nat
  slept :: "nat list"
  final :: 's

definition delay :: "RetryPolicy \<Rightarrow> nat \<Rightarrow> nat" where
  "delay pol attemptIndex =
     min (maxDelay pol) (baseDelay pol * backoffFactor pol ^ (attemptIndex - 1))"

function retryFrom ::
  "RetryPolicy \<Rightarrow> (error \<Rightarrow> bool) \<Rightarrow> ('s \<Rightarrow> (error + 'a) \<times> 's) \<Rightarrow> nat \<Rightarrow> nat list \<Rightarrow> 's
     \<Rightarrow> ('a, 's) retryRun" where
  "retryFrom pol transient operation attemptIndex sleeps s =
     (case operation s of
        (Inr v, s') \<Rightarrow>
          \<lparr>outcome = Inr v, attempts = attemptIndex, slept = sleeps, final = s'\<rparr>
      | (Inl e, s') \<Rightarrow>
          if \<not> transient e
          then \<lparr>outcome = Inl (NonTransient e), attempts = attemptIndex, slept = sleeps,
                final = s'\<rparr>
          else if attemptIndex < maxAttempts pol
          then retryFrom pol transient operation (Suc attemptIndex)
                 (sleeps @ [delay pol attemptIndex]) s'
          else \<lparr>outcome = Inl (Exhausted attemptIndex e), attempts = attemptIndex,
                slept = sleeps, final = s'\<rparr>)"
  by pat_completeness auto
termination
  by (relation "measure (\<lambda>(pol, transient, operation, attemptIndex, sleeps, s).
        maxAttempts pol - attemptIndex)") auto

declare retryFrom.simps [simp del]

definition retry ::
  "RetryPolicy \<Rightarrow> (error \<Rightarrow> bool) \<Rightarrow> ('s \<Rightarrow> (error + 'a) \<times> 's) \<Rightarrow> 's \<Rightarrow> ('a, 's) retryRun" where
  "retry pol transient operation s = retryFrom pol transient operation 1 [] s"

text \<open>
  \<open>transientFailures transient operation k s\<close> is the world after \<open>k\<close> attempts from
  \<open>s\<close> when each of them fails with a transient error, and \<open>None\<close> when one of them
  does not.
\<close>

fun transientFailures ::
  "(error \<Rightarrow> bool) \<Rightarrow> ('s \<Rightarrow> (error + 'a) \<times> 's) \<Rightarrow> nat \<Rightarrow> 's \<Rightarrow> 's option" where
  "transientFailures transient operation 0 s = Some s"
| "transientFailures transient operation (Suc k) s =
     (case operation s of
        (Inl e, s') \<Rightarrow> if transient e then transientFailures transient operation k s' else None
      | (Inr v, s') \<Rightarrow> None)"

text \<open>
  An operation for concrete runs: the world counts the attempts, and the operation times
  out until the counter has reached \<open>k\<close>.
\<close>

definition flaky :: "nat \<Rightarrow> nat \<Rightarrow> (error + string) \<times> nat" where
  "flaky k c = (if c < k then (Inl (Foreign ''timeout''), Suc c) else (Inr ''signature'', Suc c))"

definition transportFailure :: "error \<Rightarrow> bool" where
  "transportFailure e = (e = Foreign ''timeout'')"

text \<open>The retry policy of \<^verbatim>\<open>DEFAULT_CONFIG.agent.retry\<close>.\<close>

definition defaultRetryPolicy :: RetryPolicy where
  "defaultRetryPolicy = \<lparr>maxAttempts = 3, baseDelay = 1000, maxDelay = 10000, backoffFactor = 2\<rparr>"

chapter \<open>Properties\<close>

section \<open>Lifecycle guards\<close>

lemma sendThenRefresh_failure_message:
  "fst (sendThenRefresh msg P built a) = Inl e \<Longrightarrow> \<exists>c. e = SonomaError msg (Some c)"
  by (auto simp: sendThenRefresh_def split: prod.splits sum.splits)

text \<open>
  Claim C1. A \<^verbatim>\<open>pause()\<close> on a handle whose snapshot is not \<open>Running\<close>, and a
  \<^verbatim>\<open>resume()\<close> on a handle whose snapshot is not \<open>Paused\<close>, fail with the
  state-transition error of the guard and leave the handle and the network untouched: no
  call is added to the log and the remote world is the same. The guard's error is the bare
  \<^verbatim>\<open>SonomaError\<close> without a cause; every failure past the guard carries another
  message and a cause, so the caller can tell the invalid transition from any other failure.
\<close>

theorem pause_resume_guard_fails_without_network:
  "(state (account a) \<noteq> Running \<longrightarrow>
      pause P a n = (Inl (SonomaError ''Agent must be running to pause'' None), a, n))
   \<and> (state (account a) \<noteq> Paused \<longrightarrow>
      resume P a n = (Inl (SonomaError ''Agent must be paused to resume'' None), a, n))
   \<and> (state (account a) = Running \<longrightarrow>
      fst (pause P a n) \<noteq> Inl (SonomaError ''Agent must be running to pause'' None))
   \<and> (state (account a) = Paused \<longrightarrow>
      fst (resume P a n) \<noteq> Inl (SonomaError ''Agent must be paused to resume'' None))"
proof -
  have "fst (pause P a n) \<noteq> Inl (SonomaError ''Agent must be running to pause'' None)"
    if running: "state (account a) = Running"
  proof
    assume "fst (pause P a n) = Inl (SonomaError ''Agent must be running to pause'' None)"
    with running have "fst (sendThenRefresh ''Failed to pause agent'' P
        (invoke (CreatePauseInstruction (publicKey (account a)))
                (createPauseInstruction P (publicKey (account a))) n) a)
      = Inl (SonomaError ''Agent must be running to pause'' None)"
      by (simp add: pause_def Let_def)
    from sendThenRefresh_failure_message [OF this] show False by simp
  qed
  moreover have "fst (resume P a n) \<noteq> Inl (SonomaError ''Agent must be paused to resume'' None)"
    if paused: "state (account a) = Paused"
  proof
    assume "fst (resume P a n) = Inl (SonomaError ''Agent must be paused to resume'' None)"
    with paused have "fst (sendThenRefresh ''Failed to resume agent'' P
        (invoke (CreateResumeInstruction (publicKey (account a)))
                (createResumeInstruction P (publicKey (account a))) n) a)
      = Inl (SonomaError ''Agent must be paused to resume'' None)"
      by (simp add: resume_def Let_def)
    from sendThenRefresh_failure_message [OF this] show False by simp
  qed
  ultimately show ?thesis
    by (simp add: pause_def resume_def)
qed

theorem pause_resume_guard_witness:
  "state (account (newAgent (accountIn Initialized))) \<noteq> Running
   \<and> pause ledgerProgram (newAgent (accountIn Initialized)) (ledgerWith [accountIn Running])
       = (Inl (SonomaError ''Agent must be running to pause'' None),
          newAgent (accountIn Initialized), ledgerWith [accountIn Running])
   \<and> calls (snd (snd (pause ledgerProgram (newAgent (accountIn Initialized))
                         (ledgerWith [accountIn Running])))) = []
   \<and> state (account (newAgent (accountIn Running))) \<noteq> Paused
   \<and> resume ledgerProgram (newAgent (accountIn Running)) (ledgerWith [accountIn Paused])
       = (Inl (SonomaError ''Agent must be paused to resume'' None),
          newAgent (accountIn Running), ledgerWith [accountIn Paused])
   \<and> state (account (newAgent (accountIn Running))) = Running
   \<and> fst (pause ledgerProgram (newAgent (accountIn Running)) (ledgerWith [accountIn Running]))
       \<noteq> Inl (SonomaError ''Agent must be running to pause'' None)
   \<and> state (account (newAgent (accountIn Paused))) = Paused
   \<and> fst (resume ledgerProgram (newAgent (accountIn Paused)) (ledgerWith [accountIn Paused]))
       \<noteq> Inl (SonomaError ''Agent must be paused to resume'' None)"
proof -
  have st: "state (account (newAgent (accountIn s))) = s" for s
    by (simp add: newAgent_def accountIn_def)
  note g1 = pause_resume_guard_fails_without_network
    [of "newAgent (accountIn Initialized)" ledgerProgram "ledgerWith [accountIn Running]"]
  note g2 = pause_resume_guard_fails_without_network
    [of "newAgent (accountIn Running)" ledgerProgram "ledgerWith [accountIn Paused]"]
  note g3 = pause_resume_guard_fails_without_network
    [of "newAgent (accountIn Running)" ledgerProgram "ledgerWith [accountIn Running]"]
  note g4 = pause_resume_guard_fails_without_network
    [of "newAgent (accountIn Paused)" ledgerProgram "ledgerWith [accountIn Paused]"]
  have c: "calls (ledgerWith [accountIn Running]) = []"
    by (simp add: ledgerWith_def)
  show ?thesis
    using g1 g2 g3 g4 c by (simp add: st)
qed

section \<open>Refresh and notifications\<close>

lemma invoke_eq:
  "f (remote n) = (r, w') \<Longrightarrow> invoke c f n = (r, \<lparr>remote = w', calls = calls n @ [c]\<rparr>)"
  by (simp add: invoke_def)

lemma calls_invoke: "calls (snd (invoke c f n)) = calls n @ [c]"
  by (simp add: invoke_def split: prod.splits)

lemma emit_simps:
  "fst (emit ev a) = deliver (subscribers a) ev (account a)"
  "account (snd (emit ev a)) = account a"
  "subscribers (snd (emit ev a)) = subscribers a"
  "emitted (snd (emit ev a)) = emitted a @ [\<lparr>event = ev, visible = account a\<rparr>]"
  by (simp_all add: emit_def)

text \<open>
  Claim C2. When the fetch of a \<^verbatim>\<open>refresh()\<close> succeeds, the fetched snapshot becomes
  the current one and the handle emits exactly one \<open>stateChange(old, new)\<close> if the
  lifecycle state of the fetched snapshot differs from the previous one, and nothing
  otherwise. The emission is recorded with the fetched snapshot as the one visible to a
  subscriber, so \<^verbatim>\<open>getState()\<close> during delivery returns the new state. The refresh
  succeeds unless a subscriber throws during that one delivery; the emission and the
  snapshot are the same either way.
\<close>

theorem refresh_emits_stateChange_once:
  assumes "getAgentAccount P (publicKey (account a)) (remote n) = (Inr fetched, w')"
  shows "refresh P a n =
           ((if state (account a) \<noteq> state fetched
             then (case deliver (subscribers a)
                          (StateChange (state (account a)) (state fetched)) fetched of
                     None \<Rightarrow> Inr ()
                   | Some thrown \<Rightarrow>
                       Inl (SonomaError ''Failed to refresh agent data'' (Some thrown)))
             else Inr ()),
            \<lparr>account = fetched,
             subscribers = subscribers a,
             emitted = emitted a @
               (if state (account a) \<noteq> state fetched
                then [\<lparr>event = StateChange (state (account a)) (state fetched),
                       visible = fetched\<rparr>]
                else [])\<rparr>,
            \<lparr>remote = w', calls = calls n @ [GetAgentAccount (publicKey (account a))]\<rparr>)"
  using assms by (simp add: refresh_def invoke_eq emit_def split: option.splits)

theorem refresh_emits_stateChange_once_witness:
  "getAgentAccount ledgerProgram (publicKey (account (newAgent (accountIn Initialized))))
       (remote (ledgerWith [accountIn Running]))
     = (Inr (accountIn Running), remote (ledgerWith [accountIn Running]))
   \<and> fst (refresh ledgerProgram (newAgent (accountIn Initialized))
            (ledgerWith [accountIn Running])) = Inr ()
   \<and> emitted (fst (snd (refresh ledgerProgram (newAgent (accountIn Initialized))
                          (ledgerWith [accountIn Running]))))
     = [\<lparr>event = StateChange Initialized Running, visible = accountIn Running\<rparr>]
   \<and> getState (fst (snd (refresh ledgerProgram (newAgent (accountIn Initialized))
                          (ledgerWith [accountIn Running])))) = Running
   \<and> getAgentAccount ledgerProgram (publicKey (account (newAgent (accountIn Running))))
       (remote (ledgerWith [accountIn Running]))
     = (Inr (accountIn Running), remote (ledgerWith [accountIn Running]))
   \<and> emitted (fst (snd (refresh ledgerProgram (newAgent (accountIn Running))
                          (ledgerWith [accountIn Running])))) = []
   \<and> getAgentAccount ledgerProgram
       (publicKey (account (on failingStateChangeSubscriber (newAgent (accountIn Initialized)))))
       (remote (ledgerWith [accountIn Running]))
     = (Inr (accountIn Running), remote (ledgerWith [accountIn Running]))
   \<and> fst (refresh ledgerProgram (on failingStateChangeSubscriber (newAgent (accountIn Initialized)))
            (ledgerWith [accountIn Running]))
     = Inl (SonomaError ''Failed to refresh agent data'' (Some (Foreign ''subscriber failed'')))
   \<and> emitted (fst (snd (refresh ledgerProgram
        (on failingStateChangeSubscriber (newAgent (accountIn Initialized)))
        (ledgerWith [accountIn Running]))))
     = [\<lparr>event = StateChange Initialized Running, visible = accountIn Running\<rparr>]"
proof -
  have pk: "publicKey (account (newAgent (accountIn s))) = agentKey"
    "publicKey (account (on sub (newAgent (accountIn s)))) = agentKey" for s sub
    by (simp_all add: newAgent_def on_def accountIn_def initialAccount_def)
  have st: "state (account (newAgent (accountIn s))) = s" "state (accountIn s) = s"
    "state (account (on sub (newAgent (accountIn s)))) = s" for s sub
    by (simp_all add: newAgent_def on_def accountIn_def)
  have em: "emitted (newAgent acc) = []" "subscribers (newAgent acc) = []"
    "emitted (on sub (newAgent acc)) = []" "subscribers (on sub (newAgent acc)) = [sub]"
    for acc sub
    by (simp_all add: newAgent_def on_def)
  have fetch: "getAgentAccount ledgerProgram agentKey (remote (ledgerWith [accountIn Running]))
      = (Inr (accountIn Running), remote (ledgerWith [accountIn Running]))"
    by (simp add: ledgerProgram_def ledgerWith_def accountIn_def initialAccount_def)
  have f1: "getAgentAccount ledgerProgram (publicKey (account (newAgent (accountIn s))))
       (remote (ledgerWith [accountIn Running]))
     = (Inr (accountIn Running), remote (ledgerWith [accountIn Running]))" for s
    using fetch by (simp only: pk)
  have f2: "getAgentAccount ledgerProgram
       (publicKey (account (on failingStateChangeSubscriber (newAgent (accountIn s)))))
       (remote (ledgerWith [accountIn Running]))
     = (Inr (accountIn Running), remote (ledgerWith [accountIn Running]))" for s
    using fetch by (simp only: pk)
  have r1: "fst (refresh ledgerProgram (newAgent (accountIn Initialized))
            (ledgerWith [accountIn Running])) = Inr ()"
    and r1': "emitted (fst (snd (refresh ledgerProgram (newAgent (accountIn Initialized))
                          (ledgerWith [accountIn Running]))))
     = [\<lparr>event = StateChange Initialized Running, visible = accountIn Running\<rparr>]"
    and r1'': "getState (fst (snd (refresh ledgerProgram (newAgent (accountIn Initialized))
                          (ledgerWith [accountIn Running])))) = Running"
    by (simp_all add: refresh_emits_stateChange_once [OF f1] st em getState_def)
  have r2: "emitted (fst (snd (refresh ledgerProgram (newAgent (accountIn Running))
                          (ledgerWith [accountIn Running])))) = []"
    by (simp add: refresh_emits_stateChange_once [OF f1] st em)
  have r3: "fst (refresh ledgerProgram
        (on failingStateChangeSubscriber (newAgent (accountIn Initialized)))
        (ledgerWith [accountIn Running]))
     = Inl (SonomaError ''Failed to refresh agent data'' (Some (Foreign ''subscriber failed'')))"
    and r3': "emitted (fst (snd (refresh ledgerProgram
        (on failingStateChangeSubscriber (newAgent (accountIn Initialized)))
        (ledgerWith [accountIn Running]))))
     = [\<lparr>event = StateChange Initialized Running, visible = accountIn Running\<rparr>]"
    by (simp_all add: refresh_emits_stateChange_once [OF f2] st em)
  show ?thesis
    using f1 f2 r1 r1' r1'' r2 r3 r3' by simp
qed

section \<open>The snapshot after a failure\<close>

lemma agentSendTransaction_keeps:
  "account (fst (snd (agentSendTransaction P i a n))) = account a"
  "subscribers (fst (snd (agentSendTransaction P i a n))) = subscribers a"
  by (simp_all add: agentSendTransaction_def emit_def
      split: prod.splits sum.splits option.splits)

lemma refresh_fetch_failed:
  assumes "getAgentAccount P (publicKey (account a)) (remote n) = (Inl e, w')"
  shows "refresh P a n =
           (Inl (SonomaError ''Failed to refresh agent data'' (Some e)), a,
            \<lparr>remote = w', calls = calls n @ [GetAgentAccount (publicKey (account a))]\<rparr>)"
  using assms by (simp add: refresh_def invoke_eq)

lemma refresh_fetched:
  assumes "getAgentAccount P (publicKey (account a)) (remote n) = (Inr fetched, w')"
  shows "refresh P a n =
           ((if state (account a) \<noteq> state fetched
             then (case deliver (subscribers a)
                          (StateChange (state (account a)) (state fetched)) fetched of
                     None \<Rightarrow> Inr ()
                   | Some thrown \<Rightarrow>
                       Inl (SonomaError ''Failed to refresh agent data'' (Some thrown)))
             else Inr ()),
            \<lparr>account = fetched,
             subscribers = subscribers a,
             emitted = emitted a @
               (if state (account a) \<noteq> state fetched
                then [\<lparr>event = StateChange (state (account a)) (state fetched),
                       visible = fetched\<rparr>]
                else [])\<rparr>,
            \<lparr>remote = w', calls = calls n @ [GetAgentAccount (publicKey (account a))]\<rparr>)"
  using assms by (simp add: refresh_def invoke_eq emit_def split: option.splits)

lemma refresh_failure_account:
  assumes "refresh P a n = (Inl e, a', n')"
  shows "account a' = account a
         \<or> (\<exists>w w' thrown.
               getAgentAccount P (publicKey (account a)) w = (Inr (account a'), w')
               \<and> state (account a') \<noteq> state (account a)
               \<and> deliver (subscribers a) (StateChange (state (account a)) (state (account a')))
                    (account a') = Some thrown)"
proof -
  obtain q w' where fetch: "getAgentAccount P (publicKey (account a)) (remote n) = (q, w')"
    by (cases "getAgentAccount P (publicKey (account a)) (remote n)") auto
  show ?thesis
  proof (cases q)
    case (Inl c)
    with refresh_fetch_failed [of P a n c w'] fetch assms show ?thesis by simp
  next
    case (Inr fetched)
    note r = refresh_fetched [OF fetch [unfolded Inr]]
    from r assms have acc: "account a' = fetched"
      by auto
    from r assms have diff: "state (account a) \<noteq> state fetched"
      by (auto split: if_splits)
    with r assms obtain thrown where
      "deliver (subscribers a) (StateChange (state (account a)) (state fetched)) fetched
         = Some thrown"
      by (cases "deliver (subscribers a) (StateChange (state (account a)) (state fetched)) fetched")
         auto
    with fetch Inr acc diff show ?thesis
      by auto
  qed
qed

lemma sendThenRefresh_failure_account:
  assumes "sendThenRefresh msg P built a = (Inl e, a', n')"
  shows "account a' = account a
         \<or> (\<exists>w w' thrown.
               getAgentAccount P (publicKey (account a)) w = (Inr (account a'), w')
               \<and> state (account a') \<noteq> state (account a)
               \<and> deliver (subscribers a) (StateChange (state (account a)) (state (account a')))
                    (account a') = Some thrown)"
proof (cases built)
  case (Pair r n1)
  show ?thesis
  proof (cases r)
    case (Inl c)
    with Pair assms show ?thesis by (simp add: sendThenRefresh_def)
  next
    case (Inr i)
    obtain s a2 n2 where sent: "agentSendTransaction P i a n1 = (s, a2, n2)"
      by (cases "agentSendTransaction P i a n1") auto
    have a2: "account a2 = account a" "subscribers a2 = subscribers a"
      using agentSendTransaction_keeps [of P i a n1] sent by simp_all
    show ?thesis
    proof (cases s)
      case (Inl c)
      with Pair Inr sent a2 assms show ?thesis by (simp add: sendThenRefresh_def)
    next
      case u: (Inr u)
      obtain t a3 n3 where refreshed: "refresh P a2 n2 = (t, a3, n3)"
        by (cases "refresh P a2 n2") auto
      from assms Pair Inr sent u refreshed obtain c where t: "t = Inl c" and "a' = a3"
        by (cases t) (simp_all add: sendThenRefresh_def)
      with refresh_failure_account [of P a2 n2 c a3 n3] refreshed a2 show ?thesis
        by simp
    qed
  qed
qed

lemma account_executeCatch: "account (fst (snd (executeCatch e a n))) = account a"
  by (simp add: executeCatch_def emit_def split: option.splits)

lemma account_execute: "account (fst (snd (execute P data a n))) = account a"
proof -
  obtain r n1 where built:
    "invoke (CreateExecuteInstruction (publicKey (account a)) data)
            (createExecuteInstruction P (publicKey (account a)) data) n = (r, n1)"
    by (cases "invoke (CreateExecuteInstruction (publicKey (account a)) data)
            (createExecuteInstruction P (publicKey (account a)) data) n") auto
  show ?thesis
  proof (cases r)
    case (Inl e)
    with built show ?thesis by (simp add: execute_def account_executeCatch)
  next
    case (Inr i)
    obtain s a2 n2 where sent: "agentSendTransaction P i a n1 = (s, a2, n2)"
      by (cases "agentSendTransaction P i a n1") auto
    have a2: "account a2 = account a"
      using agentSendTransaction_keeps [of P i a n1] sent by simp
    show ?thesis
    proof (cases s)
      case (Inl e)
      with built Inr sent a2 show ?thesis by (simp add: execute_def account_executeCatch)
    next
      case u: (Inr u)
      obtain d a3 where announced: "emit (Execution True (Payload data)) a2 = (d, a3)"
        by (cases "emit (Execution True (Payload data)) a2") auto
      have a3: "account a3 = account a"
        using emit_simps(2) [of "Execution True (Payload data)" a2] announced a2 by simp
      with built Inr sent u announced show ?thesis
        by (cases d) (simp_all add: execute_def account_executeCatch)
    qed
  qed
qed

text \<open>
  Claim C4, as stated, at an explicit input. A handle in state \<open>Running\<close> has one
  subscriber that throws on \<open>stateChange\<close>. Its \<^verbatim>\<open>pause()\<close> is submitted and
  confirmed, the closing refresh fetches the paused account and makes it current, the
  delivery of \<open>stateChange\<close> throws, and \<^verbatim>\<open>pause()\<close> fails: the snapshot after the
  failure is the freshly fetched one, not the one from before the operation.
\<close>

theorem failed_pause_holds_fetched_snapshot:
  "fst (pause ledgerProgram (on failingStateChangeSubscriber (newAgent (accountIn Running)))
          (ledgerWith [accountIn Running]))
     = Inl (SonomaError ''Failed to pause agent''
             (Some (SonomaError ''Failed to refresh agent data''
                     (Some (Foreign ''subscriber failed'')))))
   \<and> getState (on failingStateChangeSubscriber (newAgent (accountIn Running))) = Running
   \<and> account (fst (snd (pause ledgerProgram
          (on failingStateChangeSubscriber (newAgent (accountIn Running)))
          (ledgerWith [accountIn Running]))))
     = accountIn Paused"
  by (simp add: pause_def refresh_def sendThenRefresh_def agentSendTransaction_def invoke_def
      emit_def on_def newAgent_def ledgerProgram_def ledgerWith_def withAccount_def
      accountIn_def initialAccount_def getState_def Let_def)

text \<open>
  Claim C4, amended. After a failed \<^verbatim>\<open>updateConfig\<close>, \<^verbatim>\<open>execute\<close>,
  \<^verbatim>\<open>pause\<close> or \<^verbatim>\<open>resume\<close> the snapshot of the handle is a whole snapshot, never
  a partly updated one: it is the snapshot from before the operation, except when the
  closing refresh fetched a snapshot in another lifecycle state and a subscriber threw
  during the delivery of that \<open>stateChange\<close>; then it is the snapshot just fetched. On
  a handle whose subscribers never throw it is always the snapshot from before.
\<close>

theorem failed_mutation_snapshot_is_whole:
  assumes "r = updateConfig P partial a n \<or> r = execute P data a n
           \<or> r = pause P a n \<or> r = resume P a n"
    and "fst r = Inl e"
  shows "(account (fst (snd r)) = account a
          \<or> (\<exists>w w' thrown.
                getAgentAccount P (publicKey (account a)) w = (Inr (account (fst (snd r))), w')
                \<and> state (account (fst (snd r))) \<noteq> state (account a)
                \<and> deliver (subscribers a)
                     (StateChange (state (account a)) (state (account (fst (snd r)))))
                     (account (fst (snd r))) = Some thrown))
         \<and> ((\<forall>ev acc. deliver (subscribers a) ev acc = None)
              \<longrightarrow> account (fst (snd r)) = account a)"
proof -
  obtain a' n' where r: "r = (Inl e, a', n')"
    using assms(2) by (cases r) auto
  have tail: "account a' = account a
         \<or> (\<exists>w w' thrown.
               getAgentAccount P (publicKey (account a)) w = (Inr (account a'), w')
               \<and> state (account a') \<noteq> state (account a)
               \<and> deliver (subscribers a) (StateChange (state (account a)) (state (account a')))
                    (account a') = Some thrown)"
  proof -
    consider (u) "r = updateConfig P partial a n" | (x) "r = execute P data a n"
      | (p) "r = pause P a n" | (s) "r = resume P a n"
      using assms(1) by blast
    then show ?thesis
    proof cases
      case u
      with r have "sendThenRefresh ''Failed to update agent configuration'' P
          (invoke (CreateUpdateInstruction (publicKey (account a))
                     (mergeConfig (config (account a)) partial))
                  (createUpdateInstruction P (publicKey (account a))
                     (mergeConfig (config (account a)) partial)) n) a = (Inl e, a', n')"
        by (simp add: updateConfig_def Let_def)
      from sendThenRefresh_failure_account [OF this] show ?thesis .
    next
      case x
      with r account_execute [of P data a n] show ?thesis by simp
    next
      case p
      show ?thesis
      proof (cases "state (account a) = Running")
        case True
        with p r have "sendThenRefresh ''Failed to pause agent'' P
            (invoke (CreatePauseInstruction (publicKey (account a)))
                    (createPauseInstruction P (publicKey (account a))) n) a = (Inl e, a', n')"
          by (simp add: pause_def Let_def)
        from sendThenRefresh_failure_account [OF this] show ?thesis .
      next
        case False
        with p r show ?thesis by (simp add: pause_def)
      qed
    next
      case s
      show ?thesis
      proof (cases "state (account a) = Paused")
        case True
        with s r have "sendThenRefresh ''Failed to resume agent'' P
            (invoke (CreateResumeInstruction (publicKey (account a)))
                    (createResumeInstruction P (publicKey (account a))) n) a = (Inl e, a', n')"
          by (simp add: resume_def Let_def)
        from sendThenRefresh_failure_account [OF this] show ?thesis .
      next
        case False
        with s r show ?thesis by (simp add: resume_def)
      qed
    qed
  qed
  then have "account a' = account a" if "\<forall>ev acc. deliver (subscribers a) ev acc = None"
    using that by auto
  with tail r show ?thesis by simp
qed

lemmas ledger_run_defs =
  updateConfig_def execute_def executeCatch_def pause_def resume_def create_def load_def
  refresh_def sendThenRefresh_def agentSendTransaction_def invoke_def emit_def newAgent_def
  on_def ledgerProgram_def ledgerWith_def withSendFault_def withFetchFault_def withAccount_def
  accountIn_def initialAccount_def countExecution_def exampleConfig_def agentKey_def
  walletKey_def mergeConfig_def malformed_def collapse_def Let_def

theorem failed_mutation_snapshot_is_whole_witness:
  "fst (updateConfig ledgerProgram (partialExecutionLimit 2000) (newAgent (accountIn Running))
          (withFetchFault (Foreign ''connection timed out'') (ledgerWith [accountIn Running])))
     = Inl (SonomaError ''Failed to update agent configuration''
             (Some (SonomaError ''Failed to refresh agent data''
                     (Some (Foreign ''connection timed out'')))))
   \<and> (\<forall>ev acc. deliver (subscribers (newAgent (accountIn Running))) ev acc = None)
   \<and> account (fst (snd (updateConfig ledgerProgram (partialExecutionLimit 2000)
          (newAgent (accountIn Running))
          (withFetchFault (Foreign ''connection timed out'') (ledgerWith [accountIn Running])))))
     = account (newAgent (accountIn Running))
   \<and> fst (pause ledgerProgram (on failingStateChangeSubscriber (newAgent (accountIn Running)))
          (ledgerWith [accountIn Running]))
     = Inl (SonomaError ''Failed to pause agent''
             (Some (SonomaError ''Failed to refresh agent data''
                     (Some (Foreign ''subscriber failed'')))))
   \<and> account (fst (snd (pause ledgerProgram
          (on failingStateChangeSubscriber (newAgent (accountIn Running)))
          (ledgerWith [accountIn Running]))))
     \<noteq> account (on failingStateChangeSubscriber (newAgent (accountIn Running)))
   \<and> (\<exists>w w' thrown.
         getAgentAccount ledgerProgram
           (publicKey (account (on failingStateChangeSubscriber (newAgent (accountIn Running))))) w
           = (Inr (account (fst (snd (pause ledgerProgram
                  (on failingStateChangeSubscriber (newAgent (accountIn Running)))
                  (ledgerWith [accountIn Running]))))), w')
         \<and> deliver (subscribers (on failingStateChangeSubscriber (newAgent (accountIn Running))))
              (StateChange
                 (state (account (on failingStateChangeSubscriber (newAgent (accountIn Running)))))
                 (state (account (fst (snd (pause ledgerProgram
                    (on failingStateChangeSubscriber (newAgent (accountIn Running)))
                    (ledgerWith [accountIn Running])))))))
              (account (fst (snd (pause ledgerProgram
                 (on failingStateChangeSubscriber (newAgent (accountIn Running)))
                 (ledgerWith [accountIn Running])))))
           = Some thrown)"
proof -
  have run: "fst (updateConfig ledgerProgram (partialExecutionLimit 2000)
          (newAgent (accountIn Running))
          (withFetchFault (Foreign ''connection timed out'') (ledgerWith [accountIn Running])))
     = Inl (SonomaError ''Failed to update agent configuration''
             (Some (SonomaError ''Failed to refresh agent data''
                     (Some (Foreign ''connection timed out'')))))"
    by (simp add: ledger_run_defs partialExecutionLimit_def)
  have quiet: "\<forall>ev acc. deliver (subscribers (newAgent (accountIn Running))) ev acc = None"
    by (simp add: newAgent_def)
  have paused: "fst (pause ledgerProgram
          (on failingStateChangeSubscriber (newAgent (accountIn Running)))
          (ledgerWith [accountIn Running]))
     = Inl (SonomaError ''Failed to pause agent''
             (Some (SonomaError ''Failed to refresh agent data''
                     (Some (Foreign ''subscriber failed'')))))"
    and replaced: "account (fst (snd (pause ledgerProgram
          (on failingStateChangeSubscriber (newAgent (accountIn Running)))
          (ledgerWith [accountIn Running]))))
     \<noteq> account (on failingStateChangeSubscriber (newAgent (accountIn Running)))"
    by (simp_all add: ledger_run_defs)
  have unchanged: "account (fst (snd (updateConfig ledgerProgram (partialExecutionLimit 2000)
          (newAgent (accountIn Running))
          (withFetchFault (Foreign ''connection timed out'') (ledgerWith [accountIn Running])))))
     = account (newAgent (accountIn Running))"
    using failed_mutation_snapshot_is_whole [OF disjI1 [OF refl] run] quiet by blast
  have fetched: "\<exists>w w' thrown.
         getAgentAccount ledgerProgram
           (publicKey (account (on failingStateChangeSubscriber (newAgent (accountIn Running))))) w
           = (Inr (account (fst (snd (pause ledgerProgram
                  (on failingStateChangeSubscriber (newAgent (accountIn Running)))
                  (ledgerWith [accountIn Running]))))), w')
         \<and> deliver (subscribers (on failingStateChangeSubscriber (newAgent (accountIn Running))))
              (StateChange
                 (state (account (on failingStateChangeSubscriber (newAgent (accountIn Running)))))
                 (state (account (fst (snd (pause ledgerProgram
                    (on failingStateChangeSubscriber (newAgent (accountIn Running)))
                    (ledgerWith [accountIn Running])))))))
              (account (fst (snd (pause ledgerProgram
                 (on failingStateChangeSubscriber (newAgent (accountIn Running)))
                 (ledgerWith [accountIn Running])))))
           = Some thrown"
    using failed_mutation_snapshot_is_whole
      [OF disjI2 [OF disjI2 [OF disjI1 [OF refl]]] paused]
      replaced
    by blast
  from run quiet unchanged paused replaced fetched show ?thesis
    by blast
qed

section \<open>Submission failures are announced\<close>

lemma agentSendTransaction_failure:
  "sendTransaction P [i] (remote n1) = (Inl e, w2) \<Longrightarrow>
   agentSendTransaction P i a n1
     = (Inl (propagated a e),
        a\<lparr>emitted := emitted a @ [\<lparr>event = ErrorEvent e, visible = account a\<rparr>]\<rparr>,
        \<lparr>remote = w2, calls = calls n1 @ [SendTransaction [i]]\<rparr>)"
  by (simp add: agentSendTransaction_def invoke_eq emit_def propagated_def split: option.splits)

lemma sendThenRefresh_submission_failure:
  "sendTransaction P [i] (remote n1) = (Inl e, w2) \<Longrightarrow>
   sendThenRefresh msg P (Inr i, n1) a
     = (Inl (SonomaError msg (Some (propagated a e))),
        a\<lparr>emitted := emitted a @ [\<lparr>event = ErrorEvent e, visible = account a\<rparr>]\<rparr>,
        \<lparr>remote = w2, calls = calls n1 @ [SendTransaction [i]]\<rparr>)"
  by (simp add: sendThenRefresh_def agentSendTransaction_failure)

text \<open>
  Claim C10. In each of \<^verbatim>\<open>updateConfig\<close>, \<^verbatim>\<open>execute\<close>, \<^verbatim>\<open>pause\<close> and
  \<^verbatim>\<open>resume\<close>, once the instruction \<open>i\<close> is built and its submission fails with
  \<open>e\<close>, the handle emits \<open>error(e)\<close> and the operation fails with its wrapper around
  the error that left the submission step. For \<^verbatim>\<open>execute\<close> the \<open>error(e)\<close>
  emission is followed by \<open>execution(false, cause)\<close>: both notifications are emitted
  for the one failure. The error that leaves the submission step is \<open>e\<close> itself whenever
  no subscriber throws during the delivery of \<open>error(e)\<close>.
\<close>

theorem submission_failure_emits_error:
  assumes "sendTransaction P [i] w1 = (Inl e, w2)"
  shows
    "(createUpdateInstruction P (publicKey (account a))
          (mergeConfig (config (account a)) partial) (remote n) = (Inr i, w1) \<longrightarrow>
        updateConfig P partial a n
          = (Inl (SonomaError ''Failed to update agent configuration'' (Some (propagated a e))),
             a\<lparr>emitted := emitted a @ [\<lparr>event = ErrorEvent e, visible = account a\<rparr>]\<rparr>,
             \<lparr>remote = w2,
              calls = calls n @ [CreateUpdateInstruction (publicKey (account a))
                                   (mergeConfig (config (account a)) partial),
                                 SendTransaction [i]]\<rparr>))
     \<and> (createExecuteInstruction P (publicKey (account a)) data (remote n) = (Inr i, w1) \<longrightarrow>
        execute P data a n
          = ((case deliver (subscribers a) (Execution False (Cause (propagated a e)))
                    (account a) of
                None \<Rightarrow>
                  Inl (SonomaError ''Failed to execute agent action'' (Some (propagated a e)))
              | Some thrown \<Rightarrow> Inl thrown),
             a\<lparr>emitted := emitted a @
                  [\<lparr>event = ErrorEvent e, visible = account a\<rparr>,
                   \<lparr>event = Execution False (Cause (propagated a e)), visible = account a\<rparr>]\<rparr>,
             \<lparr>remote = w2,
              calls = calls n @ [CreateExecuteInstruction (publicKey (account a)) data,
                                 SendTransaction [i]]\<rparr>))
     \<and> (state (account a) = Running
          \<and> createPauseInstruction P (publicKey (account a)) (remote n) = (Inr i, w1) \<longrightarrow>
        pause P a n
          = (Inl (SonomaError ''Failed to pause agent'' (Some (propagated a e))),
             a\<lparr>emitted := emitted a @ [\<lparr>event = ErrorEvent e, visible = account a\<rparr>]\<rparr>,
             \<lparr>remote = w2,
              calls = calls n @ [CreatePauseInstruction (publicKey (account a)),
                                 SendTransaction [i]]\<rparr>))
     \<and> (state (account a) = Paused
          \<and> createResumeInstruction P (publicKey (account a)) (remote n) = (Inr i, w1) \<longrightarrow>
        resume P a n
          = (Inl (SonomaError ''Failed to resume agent'' (Some (propagated a e))),
             a\<lparr>emitted := emitted a @ [\<lparr>event = ErrorEvent e, visible = account a\<rparr>]\<rparr>,
             \<lparr>remote = w2,
              calls = calls n @ [CreateResumeInstruction (publicKey (account a)),
                                 SendTransaction [i]]\<rparr>))
     \<and> (deliver (subscribers a) (ErrorEvent e) (account a) = None \<longrightarrow> propagated a e = e)"
proof -
  have sent: "sendTransaction P [i] (remote \<lparr>remote = w1, calls = cs\<rparr>) = (Inl e, w2)" for cs
    using assms by simp
  show ?thesis
    by (simp add: updateConfig_def execute_def executeCatch_def pause_def resume_def Let_def
        invoke_eq sendThenRefresh_submission_failure [OF sent]
        agentSendTransaction_failure [OF sent] emit_def propagated_def split: option.splits)
qed

theorem submission_failure_emits_error_witness:
  "sendTransaction ledgerProgram [Execute agentKey ''example action'']
       (remote (submissionOutage Running))
     = (Inl (Foreign ''blockhash expired''), remote (submissionOutage Running))
   \<and> createExecuteInstruction ledgerProgram (publicKey (account (newAgent (accountIn Running))))
       ''example action'' (remote (submissionOutage Running))
     = (Inr (Execute agentKey ''example action''), remote (submissionOutage Running))
   \<and> fst (execute ledgerProgram ''example action'' (newAgent (accountIn Running))
        (submissionOutage Running))
     = Inl (SonomaError ''Failed to execute agent action'' (Some (Foreign ''blockhash expired'')))
   \<and> map event (emitted (fst (snd (execute ledgerProgram ''example action''
        (newAgent (accountIn Running)) (submissionOutage Running)))))
     = [ErrorEvent (Foreign ''blockhash expired''),
        Execution False (Cause (Foreign ''blockhash expired''))]
   \<and> sendTransaction ledgerProgram [Pause agentKey] (remote (submissionOutage Running))
     = (Inl (Foreign ''blockhash expired''), remote (submissionOutage Running))
   \<and> state (account (newAgent (accountIn Running))) = Running
   \<and> createPauseInstruction ledgerProgram (publicKey (account (newAgent (accountIn Running))))
       (remote (submissionOutage Running))
     = (Inr (Pause agentKey), remote (submissionOutage Running))
   \<and> map event (emitted (fst (snd (pause ledgerProgram (newAgent (accountIn Running))
        (submissionOutage Running)))))
     = [ErrorEvent (Foreign ''blockhash expired'')]
   \<and> sendTransaction ledgerProgram [Resume agentKey] (remote (submissionOutage Paused))
     = (Inl (Foreign ''blockhash expired''), remote (submissionOutage Paused))
   \<and> state (account (newAgent (accountIn Paused))) = Paused
   \<and> createResumeInstruction ledgerProgram (publicKey (account (newAgent (accountIn Paused))))
       (remote (submissionOutage Paused))
     = (Inr (Resume agentKey), remote (submissionOutage Paused))
   \<and> map event (emitted (fst (snd (resume ledgerProgram (newAgent (accountIn Paused))
        (submissionOutage Paused)))))
     = [ErrorEvent (Foreign ''blockhash expired'')]
   \<and> sendTransaction ledgerProgram [Update agentKey (exampleConfig\<lparr>executionLimit := 2000\<rparr>)]
       (remote (submissionOutage Running))
     = (Inl (Foreign ''blockhash expired''), remote (submissionOutage Running))
   \<and> createUpdateInstruction ledgerProgram (publicKey (account (newAgent (accountIn Running))))
       (mergeConfig (config (account (newAgent (accountIn Running)))) (partialExecutionLimit 2000))
       (remote (submissionOutage Running))
     = (Inr (Update agentKey (exampleConfig\<lparr>executionLimit := 2000\<rparr>)),
        remote (submissionOutage Running))
   \<and> map event (emitted (fst (snd (updateConfig ledgerProgram (partialExecutionLimit 2000)
        (newAgent (accountIn Running)) (submissionOutage Running)))))
     = [ErrorEvent (Foreign ''blockhash expired'')]
   \<and> deliver (subscribers (newAgent (accountIn Running)))
        (ErrorEvent (Foreign ''blockhash expired'')) (account (newAgent (accountIn Running)))
     = None
   \<and> propagated (newAgent (accountIn Running)) (Foreign ''blockhash expired'')
     = Foreign ''blockhash expired''"
  (is "?sendX \<and> ?buildX \<and> ?failX \<and> ?emitX \<and> ?sendP \<and> ?running \<and> ?buildP \<and> ?emitP
       \<and> ?sendR \<and> ?paused \<and> ?buildR \<and> ?emitR \<and> ?sendU \<and> ?buildU \<and> ?emitU
       \<and> ?quiet \<and> ?same")
proof -
  have sendX: ?sendX and buildX: ?buildX and sendP: ?sendP and running: ?running
    and buildP: ?buildP and sendR: ?sendR and paused: ?paused and buildR: ?buildR
    and sendU: ?sendU and buildU: ?buildU
    by (simp_all add: ledgerProgram_def submissionOutage_def withSendFault_def ledgerWith_def
        newAgent_def accountIn_def initialAccount_def mergeConfig_def partialExecutionLimit_def
        exampleConfig_def malformed_def collapse_def)
  have em: "emitted (newAgent acc) = []" "subscribers (newAgent acc) = []"
    "propagated (newAgent acc) err = err" for acc err
    by (simp_all add: newAgent_def propagated_def)
  note x = submission_failure_emits_error [OF sendX,
      of "newAgent (accountIn Running)" "partialExecutionLimit 2000" "submissionOutage Running"
         "''example action''"]
  note p = submission_failure_emits_error [OF sendP,
      of "newAgent (accountIn Running)" "partialExecutionLimit 2000" "submissionOutage Running"
         "''example action''"]
  note r = submission_failure_emits_error [OF sendR,
      of "newAgent (accountIn Paused)" "partialExecutionLimit 2000" "submissionOutage Paused"
         "''example action''"]
  note u = submission_failure_emits_error [OF sendU,
      of "newAgent (accountIn Running)" "partialExecutionLimit 2000" "submissionOutage Running"
         "''example action''"]
  have ?failX and ?emitX
    using x buildX by (simp_all add: em)
  moreover have ?emitP
    using p buildP running by (simp add: em)
  moreover have ?emitR
    using r buildR paused by (simp add: em)
  moreover have ?emitU
    using u buildU by (simp add: em)
  moreover have quiet: ?quiet
    by (simp add: newAgent_def)
  moreover have ?same
    using x quiet by blast
  ultimately show ?thesis
    using sendX buildX sendP running buildP sendR paused buildR sendU buildU by simp
qed

section \<open>What a successful operation fetches\<close>

lemma calls_agentSendTransaction:
  "calls (snd (snd (agentSendTransaction P i a n))) = calls n @ [SendTransaction [i]]"
proof -
  obtain r n1 where sent:
    "invoke (SendTransaction [i]) (sendTransaction P [i]) n = (r, n1)"
    by (cases "invoke (SendTransaction [i]) (sendTransaction P [i]) n") auto
  have "calls n1 = calls n @ [SendTransaction [i]]"
    using calls_invoke [of "SendTransaction [i]" "sendTransaction P [i]" n] sent by simp
  with sent show ?thesis
    by (cases r) (simp_all add: agentSendTransaction_def emit_def split: option.splits)
qed

lemma executeCatch_fails: "executeCatch e a n \<noteq> (Inr u, a', n')"
  by (simp add: executeCatch_def split: prod.splits option.splits)

lemma sendThenRefresh_success_ends_with_fetch:
  assumes "sendThenRefresh msg P (r, n1) a = (Inr (), a', n')"
  shows "\<exists>w. getAgentAccount P (publicKey (account a)) w = (Inr (account a'), remote n')"
    and "last (calls n') = GetAgentAccount (publicKey (account a))"
proof -
  from assms obtain i where r: "r = Inr i"
    by (cases r) (simp_all add: sendThenRefresh_def)
  obtain s a2 n2 where sent: "agentSendTransaction P i a n1 = (s, a2, n2)"
    by (cases "agentSendTransaction P i a n1") auto
  from assms r sent have s: "s = Inr ()"
    by (cases s) (simp_all add: sendThenRefresh_def)
  from sent s have a2: "a2 = a"
    by (simp add: agentSendTransaction_def split: prod.splits sum.splits option.splits)
  from assms r sent s a2 have refreshed: "refresh P a n2 = (Inr (), a', n')"
    by (simp add: sendThenRefresh_def split: prod.splits sum.splits)
  obtain q w where fetch: "getAgentAccount P (publicKey (account a)) (remote n2) = (q, w)"
    by (cases "getAgentAccount P (publicKey (account a)) (remote n2)") auto
  from refreshed fetch obtain fetched where q: "q = Inr fetched"
    using refresh_fetch_failed [of P a n2 _ w] by (cases q) auto
  from refreshed refresh_fetched [OF fetch [unfolded q]]
  have "account a' = fetched" "remote n' = w"
    "calls n' = calls n2 @ [GetAgentAccount (publicKey (account a))]"
    by auto
  with fetch q show "\<exists>w. getAgentAccount P (publicKey (account a)) w = (Inr (account a'), remote n')"
    and "last (calls n') = GetAgentAccount (publicKey (account a))"
    by auto
qed

lemma execute_success_never_fetches:
  assumes "execute P data a n = (Inr (), a', n')"
  shows "account a' = account a"
    and "\<exists>i. calls n' = calls n @ [CreateExecuteInstruction (publicKey (account a)) data,
                                     SendTransaction [i]]"
proof -
  show "account a' = account a"
    using account_execute [of P data a n] assms by simp
  show "\<exists>i. calls n' = calls n @ [CreateExecuteInstruction (publicKey (account a)) data,
                                   SendTransaction [i]]"
  proof -
    obtain r n1 where built:
      "invoke (CreateExecuteInstruction (publicKey (account a)) data)
              (createExecuteInstruction P (publicKey (account a)) data) n = (r, n1)"
      by (cases "invoke (CreateExecuteInstruction (publicKey (account a)) data)
              (createExecuteInstruction P (publicKey (account a)) data) n") auto
    have c1: "calls n1 = calls n @ [CreateExecuteInstruction (publicKey (account a)) data]"
      using calls_invoke [of "CreateExecuteInstruction (publicKey (account a)) data"
          "createExecuteInstruction P (publicKey (account a)) data" n] built by simp
    from assms built obtain i where r: "r = Inr i"
      by (cases r) (simp_all add: execute_def executeCatch_fails)
    obtain s a2 n2 where sent: "agentSendTransaction P i a n1 = (s, a2, n2)"
      by (cases "agentSendTransaction P i a n1") auto
    have c2: "calls n2 = calls n1 @ [SendTransaction [i]]"
      using calls_agentSendTransaction [of P i a n1] sent by simp
    have "n' = n2"
    proof (cases s)
      case (Inl c)
      with assms built r sent show ?thesis
        by (simp add: execute_def executeCatch_fails)
    next
      case (Inr u)
      obtain d a3 where announced: "emit (Execution True (Payload data)) a2 = (d, a3)"
        by (cases "emit (Execution True (Payload data)) a2") auto
      show ?thesis
      proof (cases d)
        case None
        with assms built r sent Inr announced show ?thesis
          by (simp add: execute_def)
      next
        case (Some thrown)
        with assms built r sent Inr announced show ?thesis
          by (simp add: execute_def executeCatch_fails)
      qed
    qed
    with c1 c2 show ?thesis by simp
  qed
qed

text \<open>
  Claim C3. \<^verbatim>\<open>updateConfig\<close>, \<^verbatim>\<open>pause\<close> and \<^verbatim>\<open>resume\<close> end with
  \<^verbatim>\<open>await this.refresh()\<close>; \<^verbatim>\<open>execute\<close> does not. The run below is the start of
  the example program: on a freshly initialised agent \<^verbatim>\<open>execute\<close> succeeds with two
  calls, the builder and the submission, and no fetch. The remote account is then
  \<open>Running\<close> with one execution counted, while the handle still shows
  \<open>Initialized\<close> and zero executions, and a \<^verbatim>\<open>pause()\<close> on it is turned down by
  the local guard.
\<close>

theorem execute_leaves_snapshot_stale:
  "execute ledgerProgram ''example action'' (newAgent (accountIn Initialized))
       (ledgerWith [accountIn Initialized])
     = (Inr (),
        \<lparr>account = accountIn Initialized,
         subscribers = [],
         emitted = [\<lparr>event = Execution True (Payload ''example action''),
                     visible = accountIn Initialized\<rparr>]\<rparr>,
        \<lparr>remote = \<lparr>accounts = [(agentKey, countExecution (accountIn Initialized))],
                   freshKeys = [agentKey], signer = walletKey,
                   sendFault = None, fetchFault = None\<rparr>,
         calls = [CreateExecuteInstruction agentKey ''example action'',
                  SendTransaction [Execute agentKey ''example action'']]\<rparr>)
   \<and> state (countExecution (accountIn Initialized)) = Running
   \<and> totalExecutions (performanceMetrics (metadata (countExecution (accountIn Initialized)))) = 1
   \<and> getState (fst (snd (execute ledgerProgram ''example action''
        (newAgent (accountIn Initialized)) (ledgerWith [accountIn Initialized])))) = Initialized
   \<and> totalExecutions (getMetrics (fst (snd (execute ledgerProgram ''example action''
        (newAgent (accountIn Initialized)) (ledgerWith [accountIn Initialized]))))) = 0
   \<and> fst (pause ledgerProgram
        (fst (snd (execute ledgerProgram ''example action''
           (newAgent (accountIn Initialized)) (ledgerWith [accountIn Initialized]))))
        (snd (snd (execute ledgerProgram ''example action''
           (newAgent (accountIn Initialized)) (ledgerWith [accountIn Initialized])))))
     = Inl (SonomaError ''Agent must be running to pause'' None)"
  by (simp add: ledger_run_defs getState_def getMetrics_def)

section \<open>Configuration updates\<close>

lemma calls_refresh:
  "calls (snd (snd (refresh P a n))) = calls n @ [GetAgentAccount (publicKey (account a))]"
proof -
  obtain r n1 where fetched:
    "invoke (GetAgentAccount (publicKey (account a)))
            (getAgentAccount P (publicKey (account a))) n = (r, n1)"
    by (cases "invoke (GetAgentAccount (publicKey (account a)))
            (getAgentAccount P (publicKey (account a))) n") auto
  have "calls n1 = calls n @ [GetAgentAccount (publicKey (account a))]"
    using calls_invoke [of "GetAgentAccount (publicKey (account a))"
        "getAgentAccount P (publicKey (account a))" n] fetched by simp
  with fetched show ?thesis
    by (cases r) (simp_all add: refresh_def Let_def emit_def split: option.splits)
qed

lemma calls_sendThenRefresh_built:
  "\<exists>rest. calls (snd (snd (sendThenRefresh msg P (Inr i, n1) a)))
            = calls n1 @ SendTransaction [i] # rest"
proof -
  obtain s a2 n2 where sent: "agentSendTransaction P i a n1 = (s, a2, n2)"
    by (cases "agentSendTransaction P i a n1") auto
  have c2: "calls n2 = calls n1 @ [SendTransaction [i]]"
    using calls_agentSendTransaction [of P i a n1] sent by simp
  show ?thesis
  proof (cases s)
    case (Inl e)
    with sent c2 show ?thesis by (simp add: sendThenRefresh_def)
  next
    case (Inr u)
    obtain t a3 n3 where refreshed: "refresh P a2 n2 = (t, a3, n3)"
      by (cases "refresh P a2 n2") auto
    have "calls n3 = calls n2 @ [GetAgentAccount (publicKey (account a2))]"
      using calls_refresh [of P a2 n2] refreshed by simp
    with sent Inr refreshed c2 show ?thesis
      by (cases t) (simp_all add: sendThenRefresh_def)
  qed
qed

lemma calls_sendThenRefresh:
  "\<exists>rest. calls (snd (snd (sendThenRefresh msg P (r, n1) a))) = calls n1 @ rest"
proof (cases r)
  case (Inl e)
  then show ?thesis by (simp add: sendThenRefresh_def)
next
  case (Inr i)
  with calls_sendThenRefresh_built [of msg P i n1 a] show ?thesis by auto
qed

lemma ledger_update_then_refresh:
  assumes "sendFault (remote m) = None" and "fetchFault (remote m) = None"
    and "map_of (accounts (remote m)) (publicKey (account a)) = Some acc"
    and "publicKey acc = publicKey (account a)"
    and "\<not> malformed (mergeConfig (config (account a)) partial)"
  shows "\<exists>r a1 m1 a2 m2.
           updateConfig ledgerProgram partial a m = (r, a1, m1)
           \<and> ((\<forall>ev x. deliver (subscribers a) ev x = None) \<longrightarrow> r = Inr ())
           \<and> refresh ledgerProgram a1 m1 = (Inr (), a2, m2)
           \<and> getConfig a2 = collapse (mergeConfig (config (account a)) partial)"
proof -
  let ?cfg = "collapse (mergeConfig (config (account a)) partial)"
  let ?pk = "publicKey (account a)"
  let ?stored = "acc\<lparr>config := ?cfg\<rparr>"
  let ?w = "(remote m)\<lparr>accounts := AList.update ?pk ?stored (accounts (remote m))\<rparr>"
  let ?n1 = "\<lparr>remote = remote m, calls = calls m @ [CreateUpdateInstruction ?pk
      (mergeConfig (config (account a)) partial)]\<rparr>"
  let ?n2 = "\<lparr>remote = ?w, calls = calls m @ [CreateUpdateInstruction ?pk
      (mergeConfig (config (account a)) partial), SendTransaction [Update ?pk ?cfg]]\<rparr>"
  have built: "invoke (CreateUpdateInstruction ?pk (mergeConfig (config (account a)) partial))
      (createUpdateInstruction ledgerProgram ?pk (mergeConfig (config (account a)) partial)) m
      = (Inr (Update ?pk ?cfg), ?n1)"
    using assms(5) by (simp add: invoke_def ledgerProgram_def)
  have sent: "agentSendTransaction ledgerProgram (Update ?pk ?cfg) a ?n1 = (Inr (), a, ?n2)"
    using assms(1,3) by (simp add: agentSendTransaction_def invoke_def ledgerProgram_def
        withAccount_def)
  have fetch: "getAgentAccount ledgerProgram ?pk ?w = (Inr ?stored, ?w)"
    using assms(2) by (simp add: ledgerProgram_def AList.update_conv')
  obtain t a1 m1 where first: "refresh ledgerProgram a ?n2 = (t, a1, m1)"
    by (cases "refresh ledgerProgram a ?n2") auto
  from refresh_fetched [of ledgerProgram a ?n2 ?stored ?w] fetch first
  have a1: "account a1 = ?stored" "subscribers a1 = subscribers a" "remote m1 = ?w"
    and t: "(\<forall>ev x. deliver (subscribers a) ev x = None) \<longrightarrow> t = Inr ()"
    by auto
  have run: "updateConfig ledgerProgram partial a m
      = ((case t of Inl e \<Rightarrow> Inl (SonomaError ''Failed to update agent configuration'' (Some e))
                  | Inr u \<Rightarrow> Inr ()), a1, m1)"
    by (cases t) (simp_all add: updateConfig_def Let_def built sendThenRefresh_def sent first)
  have fetch2: "getAgentAccount ledgerProgram (publicKey (account a1)) (remote m1)
      = (Inr ?stored, ?w)"
    using fetch a1 assms(4) by simp
  from refresh_fetched [OF fetch2] a1
  have second: "refresh ledgerProgram a1 m1
      = (Inr (), \<lparr>account = ?stored, subscribers = subscribers a1, emitted = emitted a1\<rparr>,
         \<lparr>remote = ?w, calls = calls m1 @ [GetAgentAccount (publicKey (account a1))]\<rparr>)"
    by simp
  show ?thesis
    using run t second by (auto simp: getConfig_def)
qed

text \<open>
  Claim C5. \<^verbatim>\<open>updateConfig(partial)\<close> first asks the builder for an update
  instruction over the merged configuration, and submits the instruction the builder
  returns. In the merged configuration every field the partial names has the partial's
  value and every other field the value of the current snapshot. On the reference ledger,
  whose update replaces the stored configuration, \<^verbatim>\<open>updateConfig({executionLimit: 2000})\<close>
  followed by \<^verbatim>\<open>refresh()\<close> yields the configuration of the snapshot with the execution
  limit set to 2000 and nothing else changed; the update itself succeeds unless a
  subscriber throws during a delivery.
\<close>

theorem updateConfig_submits_merged_configuration:
  "(\<exists>rest. calls (snd (snd (updateConfig P partial a n)))
       = calls n @ CreateUpdateInstruction (publicKey (account a))
                     (mergeConfig (config (account a)) partial) # rest)
   \<and> (createUpdateInstruction P (publicKey (account a))
         (mergeConfig (config (account a)) partial) (remote n) = (Inr i, w1) \<longrightarrow>
       (\<exists>rest. calls (snd (snd (updateConfig P partial a n)))
          = calls n @ CreateUpdateInstruction (publicKey (account a))
                        (mergeConfig (config (account a)) partial)
                      # SendTransaction [i] # rest))
   \<and> autonomousMode (mergeConfig c partial)
       = (case autonomousMode_opt partial of Some v \<Rightarrow> v | None \<Rightarrow> autonomousMode c)
   \<and> executionLimit (mergeConfig c partial)
       = (case executionLimit_opt partial of Some v \<Rightarrow> v | None \<Rightarrow> executionLimit c)
   \<and> memoryLimit (mergeConfig c partial)
       = (case memoryLimit_opt partial of Some v \<Rightarrow> v | None \<Rightarrow> memoryLimit c)
   \<and> capabilities (mergeConfig c partial)
       = (case capabilities_opt partial of Some v \<Rightarrow> v | None \<Rightarrow> capabilities c)
   \<and> configMetadata (mergeConfig c partial)
       = (case configMetadata_opt partial of Some v \<Rightarrow> Some v | None \<Rightarrow> configMetadata c)
   \<and> (sendFault (remote m) = None \<and> fetchFault (remote m) = None
        \<and> map_of (accounts (remote m)) (publicKey (account h)) = Some acc
        \<and> publicKey acc = publicKey (account h)
        \<and> 0 < memoryLimit (config (account h))
        \<and> distinct (capabilities (config (account h))) \<longrightarrow>
       (\<exists>r h1 m1 h2 m2.
          updateConfig ledgerProgram (partialExecutionLimit 2000) h m = (r, h1, m1)
          \<and> ((\<forall>ev x. deliver (subscribers h) ev x = None) \<longrightarrow> r = Inr ())
          \<and> refresh ledgerProgram h1 m1 = (Inr (), h2, m2)
          \<and> getConfig h2 = (config (account h))\<lparr>executionLimit := 2000\<rparr>))"
  (is "?first \<and> ?second \<and> ?f1 \<and> ?f2 \<and> ?f3 \<and> ?f4 \<and> ?f5 \<and> ?ledger")
proof -
  let ?pk = "publicKey (account a)"
  let ?merged = "mergeConfig (config (account a)) partial"
  obtain r n1 where built:
    "invoke (CreateUpdateInstruction ?pk ?merged) (createUpdateInstruction P ?pk ?merged) n = (r, n1)"
    by (cases "invoke (CreateUpdateInstruction ?pk ?merged) (createUpdateInstruction P ?pk ?merged) n")
       auto
  have c1: "calls n1 = calls n @ [CreateUpdateInstruction ?pk ?merged]"
    using calls_invoke [of "CreateUpdateInstruction ?pk ?merged"
        "createUpdateInstruction P ?pk ?merged" n] built by simp
  have run: "updateConfig P partial a n
      = sendThenRefresh ''Failed to update agent configuration'' P (r, n1) a"
    using built by (simp add: updateConfig_def Let_def)
  have first: ?first
    using calls_sendThenRefresh [of "''Failed to update agent configuration''" P r n1 a] c1 run
    by auto
  have second: ?second
  proof
    assume b: "createUpdateInstruction P ?pk ?merged (remote n) = (Inr i, w1)"
    from invoke_eq [of "createUpdateInstruction P ?pk ?merged" n "Inr i" w1
        "CreateUpdateInstruction ?pk ?merged"] b built
    have "r = Inr i"
      by simp
    with calls_sendThenRefresh_built [of "''Failed to update agent configuration''" P i n1 a]
      c1 run
    show "\<exists>rest. calls (snd (snd (updateConfig P partial a n)))
          = calls n @ CreateUpdateInstruction ?pk ?merged # SendTransaction [i] # rest"
      by auto
  qed
  have fields: ?f1 ?f2 ?f3 ?f4 ?f5
    by (simp_all add: mergeConfig_def)
  have ledger: ?ledger
  proof
    assume h: "sendFault (remote m) = None \<and> fetchFault (remote m) = None
        \<and> map_of (accounts (remote m)) (publicKey (account h)) = Some acc
        \<and> publicKey acc = publicKey (account h)
        \<and> 0 < memoryLimit (config (account h))
        \<and> distinct (capabilities (config (account h)))"
    have merged: "mergeConfig (config (account h)) (partialExecutionLimit 2000)
        = (config (account h))\<lparr>executionLimit := 2000\<rparr>"
      by (simp add: mergeConfig_def partialExecutionLimit_def)
    have ok: "\<not> malformed (mergeConfig (config (account h)) (partialExecutionLimit 2000))"
      using h by (simp add: merged malformed_def)
    have same: "collapse ((config (account h))\<lparr>executionLimit := 2000\<rparr>)
        = (config (account h))\<lparr>executionLimit := 2000\<rparr>"
      using h by (simp add: collapse_def)
    from ledger_update_then_refresh [of m h acc "partialExecutionLimit 2000"] h ok
    show "\<exists>r h1 m1 h2 m2.
          updateConfig ledgerProgram (partialExecutionLimit 2000) h m = (r, h1, m1)
          \<and> ((\<forall>ev x. deliver (subscribers h) ev x = None) \<longrightarrow> r = Inr ())
          \<and> refresh ledgerProgram h1 m1 = (Inr (), h2, m2)
          \<and> getConfig h2 = (config (account h))\<lparr>executionLimit := 2000\<rparr>"
      by (simp add: merged same)
  qed
  from first second fields ledger show ?thesis by blast
qed


theorem updateConfig_submits_merged_configuration_witness:
  "createUpdateInstruction ledgerProgram (publicKey (account (newAgent (accountIn Running))))
       (mergeConfig (config (account (newAgent (accountIn Running)))) (partialExecutionLimit 2000))
       (remote (ledgerWith [accountIn Running]))
     = (Inr (Update agentKey (exampleConfig\<lparr>executionLimit := 2000\<rparr>)),
        remote (ledgerWith [accountIn Running]))
   \<and> (\<exists>rest. calls (snd (snd (updateConfig ledgerProgram (partialExecutionLimit 2000)
                  (newAgent (accountIn Running)) (ledgerWith [accountIn Running]))))
         = CreateUpdateInstruction agentKey (exampleConfig\<lparr>executionLimit := 2000\<rparr>)
           # SendTransaction [Update agentKey (exampleConfig\<lparr>executionLimit := 2000\<rparr>)] # rest)
   \<and> sendFault (remote (ledgerWith [accountIn Running])) = None
   \<and> fetchFault (remote (ledgerWith [accountIn Running])) = None
   \<and> map_of (accounts (remote (ledgerWith [accountIn Running])))
        (publicKey (account (newAgent (accountIn Running)))) = Some (accountIn Running)
   \<and> publicKey (accountIn Running) = publicKey (account (newAgent (accountIn Running)))
   \<and> 0 < memoryLimit (config (account (newAgent (accountIn Running))))
   \<and> distinct (capabilities (config (account (newAgent (accountIn Running)))))
   \<and> (\<forall>ev x. deliver (subscribers (newAgent (accountIn Running))) ev x = None)
   \<and> (\<exists>h1 m1 h2 m2.
         updateConfig ledgerProgram (partialExecutionLimit 2000) (newAgent (accountIn Running))
           (ledgerWith [accountIn Running]) = (Inr (), h1, m1)
         \<and> refresh ledgerProgram h1 m1 = (Inr (), h2, m2)
         \<and> getConfig h2 = exampleConfig\<lparr>executionLimit := 2000\<rparr>)"
  (is "?built \<and> ?submitted \<and> ?h1 \<and> ?h2 \<and> ?h3 \<and> ?h4 \<and> ?h5 \<and> ?h6 \<and> ?quiet
       \<and> ?roundtrip")
proof -
  have built: ?built and h: ?h1 ?h2 ?h3 ?h4 ?h5 ?h6
    by (simp_all add: ledgerProgram_def ledgerWith_def newAgent_def accountIn_def
        initialAccount_def mergeConfig_def partialExecutionLimit_def exampleConfig_def
        malformed_def collapse_def)
  have shape: "publicKey (account (newAgent (accountIn Running))) = agentKey"
    "mergeConfig (config (account (newAgent (accountIn Running)))) (partialExecutionLimit 2000)
       = exampleConfig\<lparr>executionLimit := 2000\<rparr>"
    "mergeConfig exampleConfig (partialExecutionLimit 2000)
       = exampleConfig\<lparr>executionLimit := 2000\<rparr>"
    "config (account (newAgent (accountIn Running))) = exampleConfig"
    "calls (ledgerWith [accountIn Running]) = []"
    by (simp_all add: ledgerWith_def newAgent_def accountIn_def initialAccount_def
        mergeConfig_def partialExecutionLimit_def)
  note t = updateConfig_submits_merged_configuration
    [of ledgerProgram "partialExecutionLimit 2000" "newAgent (accountIn Running)"
        "ledgerWith [accountIn Running]" "Update agentKey (exampleConfig\<lparr>executionLimit := 2000\<rparr>)"
        "remote (ledgerWith [accountIn Running])" exampleConfig "ledgerWith [accountIn Running]"
        "newAgent (accountIn Running)" "accountIn Running"]
  from t built have ?submitted
    by (simp add: shape)
  moreover have quiet: ?quiet
    by (simp add: newAgent_def)
  moreover from t h quiet have ?roundtrip
    by (simp add: shape)
  ultimately show ?thesis
    using built h by simp
qed

section \<open>Creating and loading\<close>







text \<open>
  Claim C8, as stated, at explicit inputs. An address without a backing account and a
  transport failure while fetching both make \<^verbatim>\<open>load\<close> fail with the same wrapper
  and the same message; only the cause inside differs, as far as the program's own errors
  differ. A key string the parser rejects gives the same wrapper again, with no fetch.
\<close>

theorem load_failures_share_one_wrapper:
  "fst (load parseKey ledgerProgram (AddressKey agentKey) (ledgerWith []))
     = Inl (SonomaError ''Failed to load agent'' (Some (Foreign ''account not found'')))
   \<and> fst (load parseKey ledgerProgram (AddressKey agentKey)
            (withFetchFault (Foreign ''connection timed out'') (ledgerWith [accountIn Running])))
     = Inl (SonomaError ''Failed to load agent'' (Some (Foreign ''connection timed out'')))
   \<and> failureMessage (fst (load parseKey ledgerProgram (AddressKey agentKey) (ledgerWith [])))
     = failureMessage (fst (load parseKey ledgerProgram (AddressKey agentKey)
            (withFetchFault (Foreign ''connection timed out'') (ledgerWith [accountIn Running]))))
   \<and> load parseKey ledgerProgram (AddressString []) (ledgerWith [accountIn Running])
     = (Inl (SonomaError ''Failed to load agent'' (Some (Foreign ''Invalid public key input''))),
        ledgerWith [accountIn Running])"
  by (simp add: load_def invoke_def ledgerProgram_def ledgerWith_def withFetchFault_def
      parseKey_def)

text \<open>
  Claim C8, amended. \<^verbatim>\<open>load\<close> has one failure class: every failure is the wrapper
  \<open>Failed to load agent\<close>, and its cause is exactly the error thrown by the key parser
  or by the program's account fetch, unchanged. Missing account and other network causes
  can be told apart only through that cause.
\<close>

theorem load_wraps_every_cause:
  assumes "fst (load newPublicKey P addr n) = Inl e"
  shows "\<exists>c. e = SonomaError ''Failed to load agent'' (Some c) \<and> message e = ''Failed to load agent''
           \<and> (case addr of
                 AddressString s \<Rightarrow>
                   newPublicKey s = Inl c
                   \<or> (\<exists>pk. newPublicKey s = Inr pk
                            \<and> fst (getAgentAccount P pk (remote n)) = Inl c)
               | AddressKey pk \<Rightarrow> fst (getAgentAccount P pk (remote n)) = Inl c)"
proof -
  have fetch: "\<exists>c. e = SonomaError ''Failed to load agent'' (Some c)
        \<and> message e = ''Failed to load agent''
        \<and> fst (getAgentAccount P pk (remote n)) = Inl c"
    if "fst (case invoke (GetAgentAccount pk) (getAgentAccount P pk) n of
               (Inl e, n1) \<Rightarrow> (Inl (SonomaError ''Failed to load agent'' (Some e)), n1)
             | (Inr acc, n1) \<Rightarrow> (Inr (newAgent acc), n1)) = Inl e" for pk
  proof -
    obtain r w where g: "getAgentAccount P pk (remote n) = (r, w)"
      by (cases "getAgentAccount P pk (remote n)") auto
    from that invoke_eq [of "getAgentAccount P pk" n r w "GetAgentAccount pk"] g show ?thesis
      by (cases r) auto
  qed
  show ?thesis
  proof (cases addr)
    case (AddressKey pk)
    with assms fetch [of pk] show ?thesis by (simp add: load_def)
  next
    case (AddressString s)
    show ?thesis
    proof (cases "newPublicKey s")
      case (Inl c)
      with assms AddressString show ?thesis by (auto simp: load_def)
    next
      case (Inr pk)
      with assms AddressString fetch [of pk] show ?thesis by (simp add: load_def)
    qed
  qed
qed

theorem load_wraps_every_cause_witness:
  "fst (load parseKey ledgerProgram (AddressString ''agent1'') (ledgerWith []))
     = Inl (SonomaError ''Failed to load agent'' (Some (Foreign ''account not found'')))
   \<and> (\<exists>c. SonomaError ''Failed to load agent'' (Some (Foreign ''account not found''))
             = SonomaError ''Failed to load agent'' (Some c)
          \<and> (parseKey ''agent1'' = Inl c
              \<or> (\<exists>pk. parseKey ''agent1'' = Inr pk
                     \<and> fst (getAgentAccount ledgerProgram pk (remote (ledgerWith []))) = Inl c)))"
proof -
  have run: "fst (load parseKey ledgerProgram (AddressString ''agent1'') (ledgerWith []))
     = Inl (SonomaError ''Failed to load agent'' (Some (Foreign ''account not found'')))"
    by (simp add: load_def invoke_def ledgerProgram_def ledgerWith_def parseKey_def)
  from load_wraps_every_cause [OF run] run show ?thesis
    by simp
qed

section \<open>Defaults of the SDK configuration\<close>

text \<open>
  Claim C9, as stated, at an explicit input. The input gives \<^verbatim>\<open>agent.retry\<close> with
  the single option \<^verbatim>\<open>maxAttempts\<close>. The options \<^verbatim>\<open>baseDelay\<close>,
  \<^verbatim>\<open>maxDelay\<close> and \<^verbatim>\<open>backoffFactor\<close> of that section are not specified and have
  documented defaults, yet they are absent from the result: the result is not complete.
\<close>

theorem validateConfig_drops_nested_defaults:
  "subOption retryOverride ''agent'' ''retry'' ''baseDelay'' = None
   \<and> subOption DEFAULT_CONFIG ''agent'' ''retry'' ''baseDelay'' = Some (JNumber 1000)
   \<and> subOption (validateConfig retryOverride) ''agent'' ''retry'' ''baseDelay'' = None
   \<and> subOption (validateConfig retryOverride) ''agent'' ''retry'' ''maxDelay'' = None
   \<and> subOption (validateConfig retryOverride) ''agent'' ''retry'' ''backoffFactor'' = None
   \<and> subOption (validateConfig retryOverride) ''agent'' ''retry'' ''maxAttempts''
       = Some (JNumber 5)"
  by (simp add: subOption_def retryOverride_def validateConfig_def propOf_def
      DEFAULT_CONFIG_def map_add_def)

text \<open>
  Claim C9, amended. \<^verbatim>\<open>validateConfig\<close> merges one level into each of the four
  sections. A direct option of a section that the input specifies has the input's value,
  and one the input leaves out has its value from \<^verbatim>\<open>DEFAULT_CONFIG\<close>; every direct
  default option is present in the result. A nested group such as \<^verbatim>\<open>retry\<close>,
  \<^verbatim>\<open>performance\<close> or \<^verbatim>\<open>cache\<close> is one such option: when the input gives the
  group, the result has exactly the input's group, without defaults for the sub-options it
  omits; when the input does not give it, the result has the default group.
\<close>

theorem validateConfig_merges_one_level:
  assumes "s \<in> {''network'', ''agent'', ''program'', ''settings''}"
  shows "sectionOption (validateConfig cfg) s k
           = (case sectionOption cfg s k of
                Some v \<Rightarrow> Some v
              | None \<Rightarrow> sectionOption DEFAULT_CONFIG s k)
         \<and> (sectionOption DEFAULT_CONFIG s k \<noteq> None
              \<longrightarrow> sectionOption (validateConfig cfg) s k \<noteq> None)
         \<and> typeof (propOf (validateConfig cfg) s) = ''object''
         \<and> subOption (validateConfig cfg) s g k
           = (case sectionOption cfg s g of
                Some grp \<Rightarrow> ownProps grp k
              | None \<Rightarrow> subOption DEFAULT_CONFIG s g k)"
proof -
  have merged: "validateConfig cfg s
      = Some (JObject (ownProps (propOf DEFAULT_CONFIG s) ++ ownProps (propOf cfg s)))"
    using assms by (auto simp: validateConfig_def)
  have eq: "sectionOption (validateConfig cfg) s j
           = (case sectionOption cfg s j of
                Some v \<Rightarrow> Some v
              | None \<Rightarrow> sectionOption DEFAULT_CONFIG s j)" for j
    by (simp add: merged map_add_def sectionOption_def propOf_def split: option.splits)
  have "sectionOption (validateConfig cfg) s k \<noteq> None"
    if "sectionOption DEFAULT_CONFIG s k \<noteq> None"
    using that by (simp add: eq split: option.splits)
  moreover have "typeof (propOf (validateConfig cfg) s) = ''object''"
    by (simp add: merged propOf_def)
  moreover have "sectionOption c s = ownProps (propOf c s)" for c
    by (rule ext) (simp add: sectionOption_def)
  then have "subOption c s g k = ownProps (propOf (sectionOption c s) g) k" for c
    by (simp add: subOption_def)
  then have "subOption (validateConfig cfg) s g k
           = (case sectionOption cfg s g of
                Some grp \<Rightarrow> ownProps grp k
              | None \<Rightarrow> subOption DEFAULT_CONFIG s g k)"
    by (simp add: propOf_def eq [of g] split: option.splits)
  ultimately show ?thesis
    using eq [of k] by blast
qed

theorem validateConfig_merges_one_level_witness:
  "''network'' \<in> {''network'', ''agent'', ''program'', ''settings''}
   \<and> sectionOption (validateConfig timeoutOverride) ''network'' ''timeout'' = Some (JNumber 5000)
   \<and> sectionOption DEFAULT_CONFIG ''network'' ''maxRetries'' \<noteq> None
   \<and> sectionOption (validateConfig timeoutOverride) ''network'' ''maxRetries''
       = Some (JNumber 3)
   \<and> ''agent'' \<in> {''network'', ''agent'', ''program'', ''settings''}
   \<and> subOption (validateConfig timeoutOverride) ''agent'' ''retry'' ''baseDelay''
       = Some (JNumber 1000)
   \<and> subOption (validateConfig retryOverride) ''agent'' ''retry'' ''maxAttempts''
       = Some (JNumber 5)
   \<and> subOption (validateConfig retryOverride) ''agent'' ''retry'' ''baseDelay'' = None"
proof -
  have s: "''network'' \<in> {''network'', ''agent'', ''program'', ''settings''}"
    and a: "''agent'' \<in> {''network'', ''agent'', ''program'', ''settings''}"
    by simp_all
  have given:
    "sectionOption timeoutOverride ''network'' ''timeout'' = Some (JNumber 5000)"
    "sectionOption timeoutOverride ''network'' ''maxRetries'' = None"
    "sectionOption DEFAULT_CONFIG ''network'' ''maxRetries'' = Some (JNumber 3)"
    "sectionOption timeoutOverride ''agent'' ''retry'' = None"
    "subOption DEFAULT_CONFIG ''agent'' ''retry'' ''baseDelay'' = Some (JNumber 1000)"
    by (simp_all add: sectionOption_def subOption_def propOf_def DEFAULT_CONFIG_def
        timeoutOverride_def)
  have given_group: "\<exists>grp. sectionOption retryOverride ''agent'' ''retry'' = Some grp
      \<and> ownProps grp ''maxAttempts'' = Some (JNumber 5)
      \<and> ownProps grp ''baseDelay'' = None"
    by (simp add: sectionOption_def propOf_def retryOverride_def)
  from validateConfig_merges_one_level [OF s, of timeoutOverride "''timeout''"]
    validateConfig_merges_one_level [OF s, of timeoutOverride "''maxRetries''"]
    validateConfig_merges_one_level
      [OF a, where cfg = timeoutOverride and g = "''retry''" and k = "''baseDelay''"]
  have part1: "sectionOption (validateConfig timeoutOverride) ''network'' ''timeout''
        = Some (JNumber 5000)"
    "sectionOption (validateConfig timeoutOverride) ''network'' ''maxRetries'' = Some (JNumber 3)"
    "subOption (validateConfig timeoutOverride) ''agent'' ''retry'' ''baseDelay''
        = Some (JNumber 1000)"
    by (simp_all add: given)
  from given_group
    validateConfig_merges_one_level
      [OF a, where cfg = retryOverride and g = "''retry''" and k = "''maxAttempts''"]
    validateConfig_merges_one_level
      [OF a, where cfg = retryOverride and g = "''retry''" and k = "''baseDelay''"]
  have part2: "subOption (validateConfig retryOverride) ''agent'' ''retry'' ''maxAttempts''
        = Some (JNumber 5)"
    "subOption (validateConfig retryOverride) ''agent'' ''retry'' ''baseDelay'' = None"
    by auto
  from s a given(3) part1 part2 show ?thesis
    by simp
qed

section \<open>Bounded retry\<close>

lemma retryFrom_skips_transient_failures:
  "transientFailures transient operation k s = Some sk \<Longrightarrow> i + k \<le> maxAttempts pol \<Longrightarrow>
   retryFrom pol transient operation i sleeps s
     = retryFrom pol transient operation (i + k) (sleeps @ map (delay pol) [i..<i + k]) sk"
proof (induction k arbitrary: i sleeps s)
  case 0
  then show ?case by simp
next
  case (Suc k)
  obtain r s' where step: "operation s = (r, s')"
    by (cases "operation s") auto
  from Suc.prems(1) step obtain e where r: "r = Inl e"
    by (cases r) simp_all
  from Suc.prems(1) step r have tr: "transient e"
    and rest: "transientFailures transient operation k s' = Some sk"
    by (simp_all split: if_splits)
  from Suc.prems(2) have lt: "i < maxAttempts pol" and le: "Suc i + k \<le> maxAttempts pol"
    by simp_all
  have "retryFrom pol transient operation i sleeps s
      = retryFrom pol transient operation (Suc i) (sleeps @ [delay pol i]) s'"
    by (subst retryFrom.simps) (simp add: step r tr lt)
  also have "\<dots> = retryFrom pol transient operation (Suc i + k)
      ((sleeps @ [delay pol i]) @ map (delay pol) [Suc i..<Suc i + k]) sk"
    by (rule Suc.IH [OF rest le])
  finally have run: "retryFrom pol transient operation i sleeps s
      = retryFrom pol transient operation (Suc i + k)
          ((sleeps @ [delay pol i]) @ map (delay pol) [Suc i..<Suc i + k]) sk" .
  have "[i..<i + Suc k] = i # [Suc i..<Suc i + k]"
    using upt_conv_Cons [of i "i + Suc k"] by (simp del: upt_Suc)
  then have "(sleeps @ [delay pol i]) @ map (delay pol) [Suc i..<Suc i + k]
      = sleeps @ map (delay pol) [i..<i + Suc k]"
    by (simp del: upt_Suc)
  moreover have "Suc i + k = i + Suc k" by simp
  ultimately show ?case
    using run by (simp only:)
qed

text \<open>
  Claim C6. With a policy of at least one attempt: an operation that fails transiently
  \<open>k < maxAttempts\<close> times and then succeeds makes the executor return the success
  value after exactly \<open>k + 1\<close> attempts; an operation whose every attempt, up to the
  last allowed one, fails transiently makes it stop after exactly \<open>maxAttempts\<close>
  attempts with the last failure wrapped with that count. Between attempts it sleeps the
  backoff delays, bounded by \<open>maxDelay\<close>.
\<close>

theorem retry_attempt_counts:
  assumes "1 \<le> maxAttempts pol"
  shows
    "(k < maxAttempts pol \<and> transientFailures transient operation k s = Some sk
        \<and> operation sk = (Inr v, s') \<longrightarrow>
      retry pol transient operation s
        = \<lparr>outcome = Inr v, attempts = k + 1, slept = map (delay pol) [1..<k + 1],
           final = s'\<rparr>)
     \<and> (transientFailures transient operation (maxAttempts pol - 1) s = Some sl
        \<and> operation sl = (Inl e, s'') \<and> transient e \<longrightarrow>
      retry pol transient operation s
        = \<lparr>outcome = Inl (Exhausted (maxAttempts pol) e), attempts = maxAttempts pol,
           slept = map (delay pol) [1..<maxAttempts pol], final = s''\<rparr>)
     \<and> (\<forall>i. delay pol i \<le> maxDelay pol)"
proof -
  have success: "retry pol transient operation s
        = \<lparr>outcome = Inr v, attempts = k + 1, slept = map (delay pol) [1..<k + 1],
           final = s'\<rparr>"
    if "k < maxAttempts pol" "transientFailures transient operation k s = Some sk"
      "operation sk = (Inr v, s')"
  proof -
    from that(1) have "1 + k \<le> maxAttempts pol" by simp
    from retryFrom_skips_transient_failures [OF that(2) this, of "[]"]
    have "retry pol transient operation s
        = retryFrom pol transient operation (1 + k) (map (delay pol) [1..<1 + k]) sk"
      by (simp only: retry_def append_Nil)
    also have "\<dots> = \<lparr>outcome = Inr v, attempts = 1 + k, slept = map (delay pol) [1..<1 + k],
           final = s'\<rparr>"
      by (subst retryFrom.simps) (simp only: that(3) prod.case sum.case)
    finally show ?thesis
      by (simp only: add.commute [of 1 k])
  qed
  have exhausted: "retry pol transient operation s
        = \<lparr>outcome = Inl (Exhausted (maxAttempts pol) e), attempts = maxAttempts pol,
           slept = map (delay pol) [1..<maxAttempts pol], final = s''\<rparr>"
    if "transientFailures transient operation (maxAttempts pol - 1) s = Some sl"
      "operation sl = (Inl e, s'')" "transient e"
  proof -
    from assms have m: "1 + (maxAttempts pol - 1) = maxAttempts pol" by simp
    then have "1 + (maxAttempts pol - 1) \<le> maxAttempts pol" by simp
    from retryFrom_skips_transient_failures [OF that(1) this, of "[]"]
    have "retry pol transient operation s
        = retryFrom pol transient operation (maxAttempts pol)
            (map (delay pol) [1..<maxAttempts pol]) sl"
      by (simp only: retry_def append_Nil m)
    also have "\<dots> = \<lparr>outcome = Inl (Exhausted (maxAttempts pol) e),
        attempts = maxAttempts pol, slept = map (delay pol) [1..<maxAttempts pol],
        final = s''\<rparr>"
      by (subst retryFrom.simps) (simp add: that(2,3) del: upt_Suc)
    finally show ?thesis .
  qed
  have "\<forall>i. delay pol i \<le> maxDelay pol"
    by (simp add: delay_def)
  with success exhausted show ?thesis by blast
qed


theorem retry_attempt_counts_witness:
  "1 \<le> maxAttempts defaultRetryPolicy
   \<and> 2 < maxAttempts defaultRetryPolicy
   \<and> transientFailures transportFailure (flaky 2) 2 0 = Some 2
   \<and> flaky 2 2 = (Inr ''signature'', 3)
   \<and> retry defaultRetryPolicy transportFailure (flaky 2) 0
       = \<lparr>outcome = Inr ''signature'', attempts = 3, slept = [1000, 2000], final = 3\<rparr>
   \<and> transientFailures transportFailure (flaky 5) (maxAttempts defaultRetryPolicy - 1) 0 = Some 2
   \<and> flaky 5 2 = (Inl (Foreign ''timeout''), 3)
   \<and> transportFailure (Foreign ''timeout'')
   \<and> retry defaultRetryPolicy transportFailure (flaky 5) 0
       = \<lparr>outcome = Inl (Exhausted 3 (Foreign ''timeout'')), attempts = 3,
          slept = [1000, 2000], final = 3\<rparr>"
  (is "?one \<and> ?lt \<and> ?fails2 \<and> ?then2 \<and> ?run2 \<and> ?fails5 \<and> ?last5 \<and> ?tr \<and> ?run5")
proof -
  have one: ?one and lt: ?lt and fails2: ?fails2 and then2: ?then2 and fails5: ?fails5
    and last5: ?last5 and tr: ?tr
    by (simp_all add: defaultRetryPolicy_def flaky_def transportFailure_def eval_nat_numeral)
  have delays: "map (delay defaultRetryPolicy) [1..<2 + 1] = [1000, 2000]"
    "map (delay defaultRetryPolicy) [1..<maxAttempts defaultRetryPolicy] = [1000, 2000]"
    by (simp_all add: defaultRetryPolicy_def delay_def eval_nat_numeral)
  have m: "maxAttempts defaultRetryPolicy = 3"
    by (simp add: defaultRetryPolicy_def)
  note t = retry_attempt_counts [OF one, of 2 transportFailure "flaky 2" 0 2 "''signature''" 3]
  note u = retry_attempt_counts [OF one, of _ transportFailure "flaky 5" 0 _ _ _ 2
      "Foreign ''timeout''" 3]
  from t lt fails2 then2 have ?run2
    by (simp only: delays) simp
  moreover from u fails5 last5 tr have ?run5
    by (simp only: delays) (simp add: m)
  ultimately show ?thesis
    using one lt fails2 then2 fails5 last5 tr by simp
qed

end
